theory Spec2Isabelle
  imports Complex_Main
begin

section \<open>NumPy arrays as lists of reals\<close>

text \<open>
  Both notebooks compute on NumPy arrays of float64. The embedding is in exact
  arithmetic: a one-dimensional array is a \<open>real list\<close>, a matrix is the list of its
  rows. Rounding, overflow and the values inf and nan are outside this model. Where
  NumPy would produce inf or nan from finite operands (a division by 0), a theorem about
  the values carries the hypothesis that excludes it. Overflow is followed separately,
  for the interaction block of the particle notebook, on a type of float64 values.

  The elementwise operations are on arrays of equal shape, as every array of the two
  notebooks keeps the shape it is created with; the predicates \<open>shaped\<close> and
  \<open>populations\<close> below say so for a state, and the theorems about values assume them
  or derive them.
\<close>

datatype error = ValueError | IndexError | ZeroDivisionError

type_synonym vec = "real list"
type_synonym mat = "real list list"

definition vadd :: "vec \<Rightarrow> vec \<Rightarrow> vec" where
  "vadd xs ys = map2 (+) xs ys"

definition vsub :: "vec \<Rightarrow> vec \<Rightarrow> vec" where
  "vsub xs ys = map2 (-) xs ys"

definition vmul :: "vec \<Rightarrow> vec \<Rightarrow> vec" where
  "vmul xs ys = map2 (*) xs ys"

definition vneg :: "vec \<Rightarrow> vec" where
  "vneg xs = map uminus xs"

definition smul :: "real \<Rightarrow> vec \<Rightarrow> vec" where
  "smul c xs = map ((*) c) xs"

text \<open>A comparison gives a boolean array, which multiplies as 0 or 1.\<close>

definition indicator01 :: "bool \<Rightarrow> real" where
  "indicator01 b = (if b then 1 else 0)"

definition ge0 :: "vec \<Rightarrow> vec" where
  "ge0 xs = map (\<lambda>x. indicator01 (x \<ge> 0)) xs"

definition le0 :: "vec \<Rightarrow> vec" where
  "le0 xs = map (\<lambda>x. indicator01 (x \<le> 0)) xs"

text \<open>\<open>np.dot(M, v)\<close> for a matrix \<open>M\<close> and a vector \<open>v\<close>.\<close>

definition dot :: "mat \<Rightarrow> vec \<Rightarrow> vec" where
  "dot M v = map (\<lambda>row. sum_list (vmul row v)) M"

text \<open>
  \<open>np.linspace(start, stop, num)\<close>: \<open>num\<close> equally spaced points from \<open>start\<close> to
  \<open>stop\<close>, both included; a negative \<open>num\<close> raises ValueError.
\<close>

definition linspace :: "real \<Rightarrow> real \<Rightarrow> int \<Rightarrow> error + vec" where
  "linspace start stop num =
     (if num < 0 then Inl ValueError
      else Inr (map (\<lambda>i. start + real i * ((stop - start) / real_of_int (num - 1)))
                  [0..<nat num]))"

text \<open>\<open>xs[i]\<close> for a non-negative index: IndexError out of range.\<close>

definition getitem :: "vec \<Rightarrow> nat \<Rightarrow> error + real" where
  "getitem xs i = (if i < length xs then Inr (xs ! i) else Inl IndexError)"

text \<open>
  The matrix \<open>f(np.tile(grid.reshape((Nx, 1)), (1, Nx)) - grid)\<close>: entry \<open>(i, l)\<close> is
  \<open>f (grid[i] - grid[l])\<close>.
\<close>

definition kernel_matrix :: "(real \<Rightarrow> real) \<Rightarrow> vec \<Rightarrow> mat" where
  "kernel_matrix f grid = map (\<lambda>xi. map (\<lambda>xl. f (xi - xl)) grid) grid"

section \<open>The continuum model (ProiePredateurContinu1D)\<close>

subsection \<open>Parameters\<close>

text \<open>
  The parameter cell of the notebook assigns the derivatives of the three potentials,
  the two initial profiles, the grid bounds and sizes, the final time and \<open>beta\<close>.
\<close>

record config =
  dxW1 :: "real \<Rightarrow> real"
  dxW2 :: "real \<Rightarrow> real"
  dxK :: "real \<Rightarrow> real"
  rho1_ini :: "real \<Rightarrow> real"
  rho2_ini :: "real \<Rightarrow> real"
  xmin :: real
  xmax :: real
  Nx :: int
  Nt :: int
  tf :: real
  beta :: real

text \<open>The values the notebook is shipped with.\<close>

definition notebook_config :: config where
  "notebook_config =
     \<lparr> dxW1 = sgn, dxW2 = sgn, dxK = sgn,
       rho1_ini = (\<lambda>x. 1 * indicator01 (x > - 0.99) * indicator01 (x < - 0.98)),
       rho2_ini = (\<lambda>x. 1 * indicator01 (x > - 0.05) * indicator01 (x < 0.05)),
       xmin = - 1, xmax = 1, Nx = 256, Nt = 1000, tf = 2, beta = 0.3 \<rparr>"

text \<open>
  What the parameter cell derives: the grid and its spacing \<open>Dx = grid[1] - grid[0]\<close>,
  the discrete times and the step \<open>Dt = T[1] - T[0]\<close>. The reads of index 1 fail on a
  grid or a time array of fewer than two points.
\<close>

record discretisation =
  grid :: vec
  Dx :: real
  T :: vec
  Dt :: real

definition parameters :: "config \<Rightarrow> error + discretisation" where
  "parameters cfg =
     (case linspace (xmin cfg) (xmax cfg) (Nx cfg) of
        Inl e \<Rightarrow> Inl e
      | Inr g \<Rightarrow>
     (case getitem g 1 of
        Inl e \<Rightarrow> Inl e
      | Inr g1 \<Rightarrow>
     (case getitem g 0 of
        Inl e \<Rightarrow> Inl e
      | Inr g0 \<Rightarrow>
     (case linspace 0 (tf cfg) (Nt cfg) of
        Inl e \<Rightarrow> Inl e
      | Inr ts \<Rightarrow>
     (case getitem ts 1 of
        Inl e \<Rightarrow> Inl e
      | Inr t1 \<Rightarrow>
     (case getitem ts 0 of
        Inl e \<Rightarrow> Inl e
      | Inr t0 \<Rightarrow>
        Inr \<lparr> grid = g, Dx = g1 - g0, T = ts, Dt = t1 - t0 \<rparr>))))))"

subsection \<open>State of the solver cell\<close>

text \<open>
  The variables the solver cell creates and the loop reads or writes: the three kernel
  matrices, the two densities, the two velocities, the four shift buffers, the
  snapshot counter \<open>cpt\<close> and the loop variables \<open>n\<close> and \<open>t\<close> (unbound before the
  first iteration).
\<close>

record state =
  W1p :: mat
  W2p :: mat
  Kp :: mat
  rho1 :: vec
  rho2 :: vec
  a1 :: vec
  a2 :: vec
  rho1_dp :: vec
  rho1_gm :: vec
  rho2_dp :: vec
  rho2_gm :: vec
  cpt :: nat
  n :: "nat option"
  t :: "real option"

text \<open>\<open>rho = f(grid); s = sum(rho); rho /= s\<close>.\<close>

definition normalised :: "(real \<Rightarrow> real) \<Rightarrow> vec \<Rightarrow> vec" where
  "normalised f g = (let rho = map f g; s = sum_list rho in map (\<lambda>x. x / s) rho)"

definition zeros :: "int \<Rightarrow> vec" where
  "zeros k = replicate (nat k) 0"

definition initial :: "config \<Rightarrow> discretisation \<Rightarrow> state" where
  "initial cfg d =
     \<lparr> W1p = kernel_matrix (dxW1 cfg) (grid d),
       W2p = kernel_matrix (dxW2 cfg) (grid d),
       Kp = kernel_matrix (dxK cfg) (grid d),
       rho1 = normalised (rho1_ini cfg) (grid d),
       rho2 = normalised (rho2_ini cfg) (grid d),
       a1 = zeros (Nx cfg),
       a2 = zeros (Nx cfg),
       rho1_dp = zeros (Nx cfg),
       rho1_gm = zeros (Nx cfg),
       rho2_dp = zeros (Nx cfg),
       rho2_gm = zeros (Nx cfg),
       cpt = 0, n = None, t = None \<rparr>"

subsection \<open>One iteration of the loop\<close>

text \<open>
  \<open>a1 = - (np.dot(W1p, rho1) + np.dot(Kp, rho2))\<close> and
  \<open>a2 = - (np.dot(W2p, rho2) - beta * np.dot(Kp, rho1))\<close>.
\<close>

definition velocities :: "real \<Rightarrow> state \<Rightarrow> state" where
  "velocities b st =
     st \<lparr> a1 := vneg (vadd (dot (W1p st) (rho1 st)) (dot (Kp st) (rho2 st))),
          a2 := vneg (vsub (dot (W2p st) (rho2 st)) (smul b (dot (Kp st) (rho1 st)))) \<rparr>"

text \<open>
  The slice assignments \<open>dp[1:] = v\<close> and \<open>gm[:-1] = v\<close>, for \<open>v\<close> one entry
  shorter than the buffer, keep the first entry of \<open>dp\<close> and the last entry of \<open>gm\<close>.
\<close>

definition assign_from_1 :: "vec \<Rightarrow> vec \<Rightarrow> vec" where
  "assign_from_1 dp v = take 1 dp @ v"

definition assign_to_last :: "vec \<Rightarrow> vec \<Rightarrow> vec" where
  "assign_to_last gm v = v @ drop (length gm - 1) gm"

text \<open>
  The update of one density with its velocity \<open>a\<close> and its two buffers; it returns the
  new density and the new buffers:
  \<^verbatim>\<open>
    ap = a*(a>=0)
    am = -a*(a<=0)
    dp[1:]  = ap[:-1]*rho[:-1]
    gm[:-1] = am[1:]*rho[1:]
    rho -= Dt/Dx*(ap*rho+am*rho-dp-gm)
  \<close>
\<close>

definition upwind :: "real \<Rightarrow> real \<Rightarrow> vec \<Rightarrow> vec \<Rightarrow> vec \<Rightarrow> vec \<Rightarrow> vec \<times> vec \<times> vec" where
  "upwind \<Delta>t \<Delta>x a rho dp gm =
     (let ap = vmul a (ge0 a);
          am = vmul (vneg a) (le0 a);
          dp' = assign_from_1 dp (vmul (butlast ap) (butlast rho));
          gm' = assign_to_last gm (vmul (tl am) (tl rho));
          rho' = vsub rho (smul (\<Delta>t / \<Delta>x)
                   (vsub (vsub (vadd (vmul ap rho) (vmul am rho)) dp') gm'))
      in (rho', dp', gm'))"

definition update_rho1 :: "real \<Rightarrow> real \<Rightarrow> state \<Rightarrow> state" where
  "update_rho1 \<Delta>t \<Delta>x st =
     (case upwind \<Delta>t \<Delta>x (a1 st) (rho1 st) (rho1_dp st) (rho1_gm st) of
        (r, dp, gm) \<Rightarrow> st \<lparr> rho1 := r, rho1_dp := dp, rho1_gm := gm \<rparr>)"

definition update_rho2 :: "real \<Rightarrow> real \<Rightarrow> state \<Rightarrow> state" where
  "update_rho2 \<Delta>t \<Delta>x st =
     (case upwind \<Delta>t \<Delta>x (a2 st) (rho2 st) (rho2_dp st) (rho2_gm st) of
        (r, dp, gm) \<Rightarrow> st \<lparr> rho2 := r, rho2_dp := dp, rho2_gm := gm \<rparr>)"

text \<open>Every tenth iteration saves a figure and counts it (\<open>if (not n%10): cpt += 1\<close>).\<close>

definition snapshot :: "nat \<Rightarrow> state \<Rightarrow> state" where
  "snapshot k st = (if k mod 10 = 0 then st \<lparr> cpt := cpt st + 1 \<rparr> else st)"

definition step :: "real \<Rightarrow> real \<Rightarrow> real \<Rightarrow> nat \<times> real \<Rightarrow> state \<Rightarrow> state" where
  "step \<Delta>t \<Delta>x b nt st =
     snapshot (fst nt)
       (update_rho2 \<Delta>t \<Delta>x
         (update_rho1 \<Delta>t \<Delta>x
           (velocities b (st \<lparr> n := Some (fst nt), t := Some (snd nt) \<rparr>))))"

subsection \<open>The whole run\<close>

text \<open>\<open>for n,t in enumerate(T)\<close>: the loop body once for each discrete time, in order.\<close>

definition loop :: "real \<Rightarrow> real \<Rightarrow> real \<Rightarrow> vec \<Rightarrow> state \<Rightarrow> state" where
  "loop \<Delta>t \<Delta>x b ts st = fold (step \<Delta>t \<Delta>x b) (enumerate 0 ts) st"

definition run :: "config \<Rightarrow> error + state" where
  "run cfg =
     (case parameters cfg of
        Inl e \<Rightarrow> Inl e
      | Inr d \<Rightarrow> Inr (loop (Dt d) (Dx d) (beta cfg) (T d) (initial cfg d)))"

text \<open>The number of iterations a finished run has made, read from the loop variable.\<close>

definition steps_done :: "state \<Rightarrow> nat" where
  "steps_done st = (case n st of None \<Rightarrow> 0 | Some k \<Rightarrow> Suc k)"

text \<open>
  The iterations a run makes. An error of the parameter cell stops the notebook before
  the solver cell, so such a run makes none.
\<close>

definition steps_executed :: "config \<Rightarrow> nat" where
  "steps_executed cfg = (case run cfg of Inl e \<Rightarrow> 0 | Inr st \<Rightarrow> steps_done st)"

subsection \<open>A small configuration\<close>

text \<open>
  The notebook's configuration on a grid of five points with three time steps, the
  two initial profiles moved onto grid points: the predators start in the second cell,
  the prey in the middle cell. It is small enough to run inside the logic.
\<close>

definition example_config :: config where
  "example_config =
     \<lparr> dxW1 = sgn, dxW2 = sgn, dxK = sgn,
       rho1_ini = (\<lambda>x. 1 * indicator01 (x > - 0.6) * indicator01 (x < - 0.4)),
       rho2_ini = (\<lambda>x. 1 * indicator01 (x > - 0.1) * indicator01 (x < 0.1)),
       xmin = - 1, xmax = 1, Nx = 5, Nt = 3, tf = 0.5, beta = 0.3 \<rparr>"

definition example_discretisation :: discretisation where
  "example_discretisation =
     \<lparr> grid = [- 1, - 1 / 2, 0, 1 / 2, 1], Dx = 1 / 2, T = [0, 1 / 4, 1 / 2], Dt = 1 / 4 \<rparr>"

text \<open>
  The run of this configuration: the kernel matrix of \<open>sgn\<close> on the five grid points,
  which serves for all three potentials, and the state before each of the three
  iterations and after the last.
\<close>

definition example_kernel :: mat where
  "example_kernel =
     [[0, - 1, - 1, - 1, - 1], [1, 0, - 1, - 1, - 1], [1, 1, 0, - 1, - 1],
      [1, 1, 1, 0, - 1], [1, 1, 1, 1, 0]]"

definition example_state0 :: state where
  "example_state0 =
     \<lparr> W1p = example_kernel, W2p = example_kernel, Kp = example_kernel,
       rho1 = [0, 1, 0, 0, 0], rho2 = [0, 0, 1, 0, 0],
       a1 = [0, 0, 0, 0, 0], a2 = [0, 0, 0, 0, 0],
       rho1_dp = [0, 0, 0, 0, 0], rho1_gm = [0, 0, 0, 0, 0],
       rho2_dp = [0, 0, 0, 0, 0], rho2_gm = [0, 0, 0, 0, 0],
       cpt = 0, n = None, t = None \<rparr>"

definition example_state1 :: state where
  "example_state1 =
     \<lparr> W1p = example_kernel, W2p = example_kernel, Kp = example_kernel,
       rho1 = [0, 1 / 2, 1 / 2, 0, 0], rho2 = [0, 0, 17 / 20, 3 / 20, 0],
       a1 = [2, 1, - 1, - 2, - 2], a2 = [7 / 10, 1, 3 / 10, - (7 / 10), - (7 / 10)],
       rho1_dp = [0, 0, 1, 0, 0], rho1_gm = [0, 0, 0, 0, 0],
       rho2_dp = [0, 0, 0, 3 / 10, 0], rho2_gm = [0, 0, 0, 0, 0],
       cpt = 1, n = Some 0, t = Some 0 \<rparr>"

definition example_state2 :: state where
  "example_state2 =
     \<lparr> W1p = example_kernel, W2p = example_kernel, Kp = example_kernel,
       rho1 = [0, 17 / 80, 63 / 80, 0, 0], rho2 = [0, 0, 611 / 800, 189 / 800, 0],
       a1 = [2, 3 / 2, - (7 / 20), - (37 / 20), - 2],
       a2 = [7 / 10, 17 / 20, 3 / 10, - (11 / 20), - (7 / 10)],
       rho1_dp = [0, 0, 3 / 4, 0, 0], rho1_gm = [0, 7 / 40, 0, 0, 0],
       rho2_dp = [0, 0, 0, 51 / 200, 0], rho2_gm = [0, 0, 33 / 400, 0, 0],
       cpt = 1, n = Some 1, t = Some (1 / 4) \<rparr>"

definition example_state3 :: state where
  "example_state3 =
     \<lparr> W1p = example_kernel, W2p = example_kernel, Kp = example_kernel,
       rho1 = [0, 289 / 12800, 123913 / 128000, 1197 / 128000, 0],
       rho2 = [0, 0, 901079 / 1280000, 378921 / 1280000, 0],
       a1 = [2, 143 / 80, 19 / 800, - (1411 / 800), - 2],
       a2 = [7 / 10, 611 / 800, 3 / 10, - (371 / 800), - (7 / 10)],
       rho1_dp = [0, 0, 2431 / 6400, 1197 / 64000, 0], rho1_gm = [0, 0, 0, 0, 0],
       rho2_dp = [0, 0, 0, 1833 / 8000, 0], rho2_gm = [0, 0, 70119 / 640000, 0, 0],
       cpt = 1, n = Some 2, t = Some (1 / 2) \<rparr>"

subsection \<open>The scheme as the notebook states it\<close>

text \<open>
  The positive and negative parts of a velocity, and the numerical flux of the
  notebook's header, \<open>F_{i+1/2} = a\<^sup>+_i rho_i - a\<^sup>-_{i+1} rho_{i+1}\<close>. Interfaces are
  numbered by the cell on their right: \<open>interface_flux a rho j\<close> is the flux between
  cell \<open>j - 1\<close> and cell \<open>j\<close>, that is \<open>F_{j-1/2}\<close>, for \<open>j\<close> from 0 to the number of
  cells. A cell outside the grid contributes 0: nothing enters from outside.
\<close>

definition pos_part :: "real \<Rightarrow> real" where
  "pos_part x = max x 0"

definition neg_part :: "real \<Rightarrow> real" where
  "neg_part x = max (- x) 0"

definition interface_flux :: "vec \<Rightarrow> vec \<Rightarrow> nat \<Rightarrow> real" where
  "interface_flux a rho j =
     (if j = 0 then 0 else pos_part (a ! (j - 1)) * rho ! (j - 1))
     - (if j < length rho then neg_part (a ! j) * rho ! j else 0)"

text \<open>
  The shape of the solver's state on a grid of \<open>N\<close> points: every array has \<open>N\<close>
  entries, the kernel matrices are \<open>N\<close> by \<open>N\<close>, and the entries of the shift buffers
  that the slice assignments never write, index 0 of \<open>rho*_dp\<close> and index \<open>N - 1\<close> of
  \<open>rho*_gm\<close>, hold the 0 they were created with.
\<close>

definition square :: "nat \<Rightarrow> mat \<Rightarrow> bool" where
  "square N M \<longleftrightarrow> length M = N \<and> list_all (\<lambda>row. length row = N) M"

definition shaped :: "nat \<Rightarrow> state \<Rightarrow> bool" where
  "shaped N st \<longleftrightarrow>
     0 < N \<and> square N (W1p st) \<and> square N (W2p st) \<and> square N (Kp st) \<and>
     length (rho1 st) = N \<and> length (rho2 st) = N \<and>
     length (rho1_dp st) = N \<and> length (rho1_gm st) = N \<and>
     length (rho2_dp st) = N \<and> length (rho2_gm st) = N \<and>
     rho1_dp st ! 0 = 0 \<and> rho1_gm st ! (N - 1) = 0 \<and>
     rho2_dp st ! 0 = 0 \<and> rho2_gm st ! (N - 1) = 0"

text \<open>
  The states a loop goes through: the state before the first iteration, then the state
  after each iteration. The last one is the result of the loop.
\<close>

fun trajectory :: "real \<Rightarrow> real \<Rightarrow> real \<Rightarrow> (nat \<times> real) list \<Rightarrow> state \<Rightarrow> state list" where
  "trajectory \<Delta>t \<Delta>x b [] st = [st]"
| "trajectory \<Delta>t \<Delta>x b (nt # nts) st = st # trajectory \<Delta>t \<Delta>x b nts (step \<Delta>t \<Delta>x b nt st)"

definition run_states :: "config \<Rightarrow> discretisation \<Rightarrow> state list" where
  "run_states cfg d =
     trajectory (Dt d) (Dx d) (beta cfg) (enumerate 0 (T d)) (initial cfg d)"

definition mass :: "vec \<Rightarrow> real" where
  "mass rho = sum_list rho"

definition nonneg :: "vec \<Rightarrow> bool" where
  "nonneg xs = list_all (\<lambda>x. 0 \<le> x) xs"

text \<open>The CFL condition \<open>Dt * max(|a|) / Dx \<le> 1\<close> for one velocity field.\<close>

definition cfl :: "real \<Rightarrow> real \<Rightarrow> vec \<Rightarrow> bool" where
  "cfl \<Delta>t \<Delta>x a \<longleftrightarrow> \<Delta>t * Max (set (map abs a)) / \<Delta>x \<le> 1"

text \<open>No mass in the first and in the last cell of the grid.\<close>

definition no_boundary_mass :: "state \<Rightarrow> bool" where
  "no_boundary_mass st \<longleftrightarrow>
     hd (rho1 st) = 0 \<and> last (rho1 st) = 0 \<and> hd (rho2 st) = 0 \<and> last (rho2 st) = 0"

text \<open>
  A run divides by the two sums that normalise the initial profiles and by \<open>Dx\<close>.
  NumPy turns a division by 0 into inf or nan and goes on; the reals have no such
  values. The model is the code for the configurations where none of the three is 0,
  and the theorems about the values of a run are stated for these.
\<close>

definition representable :: "config \<Rightarrow> discretisation \<Rightarrow> bool" where
  "representable cfg d \<longleftrightarrow>
     Dx d \<noteq> 0 \<and> sum_list (map (rho1_ini cfg) (grid d)) \<noteq> 0
     \<and> sum_list (map (rho2_ini cfg) (grid d)) \<noteq> 0"

text \<open>A kernel matrix with entries between \<open>- 1\<close> and 1, as the one of \<open>sgn\<close>.\<close>

definition bounded_kernel :: "mat \<Rightarrow> bool" where
  "bounded_kernel M = list_all (list_all (\<lambda>w. \<bar>w\<bar> \<le> 1)) M"

text \<open>What the parameter cell derives from the values the notebook is shipped with.\<close>

definition notebook_discretisation :: discretisation where
  "notebook_discretisation =
     \<lparr> grid = map (\<lambda>i. - 1 + real i * (2 / 255)) [0..<256], Dx = 2 / 255,
       T = map (\<lambda>i. real i * (2 / 999)) [0..<1000], Dt = 2 / 999 \<rparr>"

text \<open>The velocity fields an iteration computes from a state.\<close>

definition velocity1 :: "real \<Rightarrow> state \<Rightarrow> vec" where
  "velocity1 b st = a1 (velocities b st)"

definition velocity2 :: "real \<Rightarrow> state \<Rightarrow> vec" where
  "velocity2 b st = a2 (velocities b st)"

section \<open>The particle model (ProiePredateurDiscret2D)\<close>

subsection \<open>Matrices\<close>

definition madd :: "mat \<Rightarrow> mat \<Rightarrow> mat" where
  "madd A B = map2 vadd A B"

definition msub :: "mat \<Rightarrow> mat \<Rightarrow> mat" where
  "msub A B = map2 vsub A B"

definition mmul :: "mat \<Rightarrow> mat \<Rightarrow> mat" where
  "mmul A B = map2 vmul A B"

text \<open>
  Elementwise division. NumPy divides a float by 0 into inf or nan; the reals have no
  such values, so the theorems below show that no divisor is 0.
\<close>

definition mdiv :: "mat \<Rightarrow> mat \<Rightarrow> mat" where
  "mdiv A B = map2 (map2 (/)) A B"

definition mmap :: "(real \<Rightarrow> real) \<Rightarrow> mat \<Rightarrow> mat" where
  "mmap f A = map (map f) A"

text \<open>
  \<open>matl.repmat(x, 1, k)\<close> for a column \<open>x\<close> puts \<open>k\<close> copies of it side by side;
  \<open>matl.repmat(x.T, k, 1)\<close> stacks \<open>k\<close> copies of the row \<open>x.T\<close>.
\<close>

definition repmat_col :: "vec \<Rightarrow> nat \<Rightarrow> mat" where
  "repmat_col x k = map (\<lambda>v. replicate k v) x"

definition repmat_row :: "vec \<Rightarrow> nat \<Rightarrow> mat" where
  "repmat_row x k = replicate k x"

text \<open>The matrix with \<open>Na\<close> rows and \<open>Nb\<close> columns whose entry \<open>(i, j)\<close> is \<open>f i j\<close>.\<close>

definition table :: "nat \<Rightarrow> nat \<Rightarrow> (nat \<Rightarrow> nat \<Rightarrow> real) \<Rightarrow> mat" where
  "table Na Nb f = map (\<lambda>i. map (\<lambda>j. f i j) [0..<Nb]) [0..<Na]"

text \<open>\<open>sum(M, axis=1)\<close>: the sum of each row.\<close>

definition row_sums :: "mat \<Rightarrow> vec" where
  "row_sums M = map sum_list M"

text \<open>Division of an array by a population count.\<close>

definition sdiv :: "vec \<Rightarrow> nat \<Rightarrow> vec" where
  "sdiv xs k = map (\<lambda>x. x / real k) xs"

subsection \<open>Parameters and state\<close>

text \<open>
  The parameter cell: the radial derivatives of the three potentials, the population
  sizes, the prey speed \<open>alpha\<close>, the time step \<open>dt\<close> and the final time, which the
  notebook calls \<open>T\<close>. The sizes are natural numbers: \<open>rand\<close> raises on a negative
  one.
\<close>

record particle_config =
  s1prime :: "real \<Rightarrow> real"
  s2prime :: "real \<Rightarrow> real"
  kprime :: "real \<Rightarrow> real"
  N1 :: nat
  N2 :: nat
  alpha :: real
  dt :: real
  T_final :: real

text \<open>The derivatives as shipped: \<open>0*(r==0)+0.1*(r>0)\<close> and \<open>0*(r==0)+1*(r>0)\<close>.\<close>

definition notebook_s1prime :: "real \<Rightarrow> real" where
  "notebook_s1prime r = 0 * indicator01 (r = 0) + 0.1 * indicator01 (r > 0)"

definition notebook_s2prime :: "real \<Rightarrow> real" where
  "notebook_s2prime r = 0 * indicator01 (r = 0) + 0.1 * indicator01 (r > 0)"

definition notebook_kprime :: "real \<Rightarrow> real" where
  "notebook_kprime r = 0 * indicator01 (r = 0) + 1 * indicator01 (r > 0)"

definition notebook_particle_config :: particle_config where
  "notebook_particle_config =
     \<lparr> s1prime = notebook_s1prime, s2prime = notebook_s2prime, kprime = notebook_kprime,
       N1 = 400, N2 = 400, alpha = 0.3, dt = 0.005, T_final = 5 \<rparr>"

text \<open>
  \<open>int(x)\<close> of a float truncates towards zero, and \<open>nT = int(T/(dt))\<close> raises
  ZeroDivisionError when \<open>dt\<close> is 0.
\<close>

definition py_int :: "real \<Rightarrow> int" where
  "py_int x = (if 0 \<le> x then \<lfloor>x\<rfloor> else \<lceil>x\<rceil>)"

definition nT :: "particle_config \<Rightarrow> error + int" where
  "nT pc = (if dt pc = 0 then Inl ZeroDivisionError else Inr (py_int (T_final pc / dt pc)))"

text \<open>
  The positions of the predators \<open>(x1, y1)\<close> and of the prey \<open>(x2, y2)\<close>, the
  velocities, the two counters, and the loop variables, which the notebook calls \<open>n\<close>
  and \<open>k\<close> (unbound before the first iteration).
\<close>

record particles =
  x1 :: vec
  y1 :: vec
  x2 :: vec
  y2 :: vec
  dx1 :: vec
  dy1 :: vec
  dx2 :: vec
  dy2 :: vec
  cnt :: nat
  cnt_sav :: nat
  loop_n :: "nat option"
  loop_k :: "real option"

text \<open>
  The positions are drawn at random by the parameter cell, so they are an input of
  the model. The cell draws \<open>N1\<close> positions for the prey as well; the sizes it is
  shipped with are equal.
\<close>

definition initial_particles :: "particle_config \<Rightarrow> vec \<Rightarrow> vec \<Rightarrow> vec \<Rightarrow> vec \<Rightarrow> particles" where
  "initial_particles pc px1 py1 px2 py2 =
     \<lparr> x1 = px1, y1 = py1, x2 = px2, y2 = py2,
       dx1 = replicate (N1 pc) 0, dy1 = replicate (N1 pc) 0,
       dx2 = replicate (N2 pc) 0, dy2 = replicate (N2 pc) 0,
       cnt = 0, cnt_sav = 0, loop_n = None, loop_k = None \<rparr>"

subsection \<open>Pairwise interactions\<close>

text \<open>
  The loop body has the same block three times, for predator with predator, predator
  with prey and prey with prey. With \<open>a\<close> for the first population, \<open>b\<close> for the
  second and \<open>Nb\<close> for the size of the second:
  \<^verbatim>\<open>
    xDiff = matl.repmat(xa,1,Nb) - matl.repmat(xb.T,Na,1)
    yDiff = matl.repmat(ya,1,Nb) - matl.repmat(yb.T,Na,1)
    normDiff = sqrt( xDiff**2 + yDiff**2 )
    normDiff = normDiff*(normDiff>0)+1*(normDiff==0)
    dxS = xDiff * sprime(normDiff) / normDiff
    dyS = yDiff * sprime(normDiff) / normDiff
  \<close>
  The function returns the divisor matrix \<open>normDiff\<close> after the substitution, and the
  two matrices of directional derivatives.
\<close>

definition distances :: "mat \<Rightarrow> mat \<Rightarrow> mat" where
  "distances xDiff yDiff = mmap sqrt (madd (mmap (\<lambda>v. v ^ 2) xDiff) (mmap (\<lambda>v. v ^ 2) yDiff))"

definition avoid_zero :: "mat \<Rightarrow> mat" where
  "avoid_zero normDiff =
     mmap (\<lambda>r. r * indicator01 (r > 0) + 1 * indicator01 (r = 0)) normDiff"

definition interactions ::
  "(real \<Rightarrow> real) \<Rightarrow> nat \<Rightarrow> nat \<Rightarrow> vec \<Rightarrow> vec \<Rightarrow> vec \<Rightarrow> vec \<Rightarrow> mat \<times> mat \<times> mat" where
  "interactions sprime Na Nb xa ya xb yb =
     (let xDiff = msub (repmat_col xa Nb) (repmat_row xb Na);
          yDiff = msub (repmat_col ya Nb) (repmat_row yb Na);
          normDiff = avoid_zero (distances xDiff yDiff);
          dxS = mdiv (mmul xDiff (mmap sprime normDiff)) normDiff;
          dyS = mdiv (mmul yDiff (mmap sprime normDiff)) normDiff
      in (normDiff, dxS, dyS))"

definition predator_terms :: "particle_config \<Rightarrow> particles \<Rightarrow> mat \<times> mat \<times> mat" where
  "predator_terms pc p =
     interactions (s1prime pc) (N1 pc) (N1 pc) (x1 p) (y1 p) (x1 p) (y1 p)"

definition cross_terms :: "particle_config \<Rightarrow> particles \<Rightarrow> mat \<times> mat \<times> mat" where
  "cross_terms pc p =
     interactions (kprime pc) (N1 pc) (N2 pc) (x1 p) (y1 p) (x2 p) (y2 p)"

definition prey_terms :: "particle_config \<Rightarrow> particles \<Rightarrow> mat \<times> mat \<times> mat" where
  "prey_terms pc p =
     interactions (s2prime pc) (N2 pc) (N2 pc) (x2 p) (y2 p) (x2 p) (y2 p)"

subsection \<open>One iteration and the whole run\<close>

text \<open>
  \<^verbatim>\<open>
    dx1 = - sum(dxS1, axis=1)/N1 - sum(dxK, axis=1)/N2
    dy1 = - sum(dyS1, axis=1)/N1 - sum(dyK, axis=1)/N2
    dx2 = - sum(dxS2, axis=1)/N2 - alpha * sum(dxK.T, axis=1)/N1
    dy2 = - sum(dyS2, axis=1)/N2 - alpha * sum(dyK.T, axis=1)/N1
  \<close>
  The matrices \<open>dxK\<close> and \<open>dyK\<close> are written \<open>dxK_m\<close> and \<open>dyK_m\<close> here, as
  \<open>dxK\<close> is the derivative of K in the continuum notebook. The transpose is the
  one of a matrix with at least one row.
\<close>

definition particle_velocities :: "particle_config \<Rightarrow> particles \<Rightarrow> particles" where
  "particle_velocities pc p =
     (case predator_terms pc p of (norm1Diff, dxS1, dyS1) \<Rightarrow>
      case cross_terms pc p of (norm12Diff, dxK_m, dyK_m) \<Rightarrow>
      case prey_terms pc p of (norm2Diff, dxS2, dyS2) \<Rightarrow>
        p \<lparr> dx1 := vsub (sdiv (vneg (row_sums dxS1)) (N1 pc)) (sdiv (row_sums dxK_m) (N2 pc)),
            dy1 := vsub (sdiv (vneg (row_sums dyS1)) (N1 pc)) (sdiv (row_sums dyK_m) (N2 pc)),
            dx2 := vsub (sdiv (vneg (row_sums dxS2)) (N2 pc))
                     (sdiv (smul (alpha pc) (row_sums (transpose dxK_m))) (N1 pc)),
            dy2 := vsub (sdiv (vneg (row_sums dyS2)) (N2 pc))
                     (sdiv (smul (alpha pc) (row_sums (transpose dyK_m))) (N1 pc)) \<rparr>)"

text \<open>Explicit Euler: \<open>x1 += dt*dx1.reshape(N1,1)\<close> and the same for the other three.\<close>

definition euler :: "particle_config \<Rightarrow> particles \<Rightarrow> particles" where
  "euler pc p =
     p \<lparr> x1 := vadd (x1 p) (smul (dt pc) (dx1 p)),
         y1 := vadd (y1 p) (smul (dt pc) (dy1 p)),
         x2 := vadd (x2 p) (smul (dt pc) (dx2 p)),
         y2 := vadd (y2 p) (smul (dt pc) (dy2 p)) \<rparr>"

text \<open>
  The end of the body: a figure is saved when \<open>cnt % sav == 0\<close>, with \<open>sav = 10\<close>, and
  \<open>cnt\<close> counts the iteration.
\<close>

definition save :: "particles \<Rightarrow> particles" where
  "save p =
     (let p' = (if cnt p mod 10 = 0 then p \<lparr> cnt_sav := cnt_sav p + 1 \<rparr> else p)
      in p' \<lparr> cnt := cnt p' + 1 \<rparr>)"

definition particle_step :: "particle_config \<Rightarrow> nat \<times> real \<Rightarrow> particles \<Rightarrow> particles" where
  "particle_step pc nk p =
     save (euler pc (particle_velocities pc
       (p \<lparr> loop_n := Some (fst nk), loop_k := Some (snd nk) \<rparr>)))"

text \<open>\<open>for n,k in enumerate(linspace(0,T,nT+1))\<close>.\<close>

definition particle_times :: "particle_config \<Rightarrow> error + vec" where
  "particle_times pc =
     (case nT pc of
        Inl e \<Rightarrow> Inl e
      | Inr m \<Rightarrow> linspace 0 (T_final pc) (m + 1))"

definition run_particles ::
  "particle_config \<Rightarrow> vec \<Rightarrow> vec \<Rightarrow> vec \<Rightarrow> vec \<Rightarrow> error + particles" where
  "run_particles pc px1 py1 px2 py2 =
     (case particle_times pc of
        Inl e \<Rightarrow> Inl e
      | Inr ts \<Rightarrow>
          Inr (fold (particle_step pc) (enumerate 0 ts) (initial_particles pc px1 py1 px2 py2)))"


subsection \<open>The model as the notebook states it\<close>

text \<open>
  The gradient of a radial potential \<open>S(x) = s(|x|)\<close> at the vector \<open>(u, v)\<close>:
  \<open>x / |x| * s'(|x|)\<close>, and 0 at the origin.
\<close>

definition grad :: "(real \<Rightarrow> real) \<Rightarrow> real \<times> real \<Rightarrow> real \<times> real" where
  "grad sprime w =
     (let r = sqrt ((fst w) ^ 2 + (snd w) ^ 2)
      in if r = 0 then (0, 0) else (fst w * sprime r / r, snd w * sprime r / r))"

text \<open>
  The divisor the code uses for a pair at the difference \<open>(u, v)\<close>: the distance, and 1
  where the distance is 0.
\<close>

definition divisor :: "real \<Rightarrow> real \<Rightarrow> real" where
  "divisor u v = (if sqrt (u ^ 2 + v ^ 2) = 0 then 1 else sqrt (u ^ 2 + v ^ 2))"

text \<open>Particle \<open>i\<close> of a population as a point, and the difference of two points.\<close>

definition point :: "vec \<Rightarrow> vec \<Rightarrow> nat \<Rightarrow> real \<times> real" where
  "point xs ys i = (xs ! i, ys ! i)"

definition minus_point :: "real \<times> real \<Rightarrow> real \<times> real \<Rightarrow> real \<times> real" where
  "minus_point p q = (fst p - fst q, snd p - snd q)"

definition populations :: "particle_config \<Rightarrow> particles \<Rightarrow> bool" where
  "populations pc p \<longleftrightarrow>
     0 < N1 pc \<and> 0 < N2 pc \<and>
     length (x1 p) = N1 pc \<and> length (y1 p) = N1 pc \<and>
     length (x2 p) = N2 pc \<and> length (y2 p) = N2 pc"


subsection \<open>A small population\<close>

text \<open>
  Two predators and two prey with the notebook's potentials. Both predators and the
  first prey are at the origin, the second prey is at \<open>(3, 4)\<close>.
\<close>

definition example_particle_config :: particle_config where
  "example_particle_config = notebook_particle_config \<lparr> N1 := 2, N2 := 2 \<rparr>"

definition example_particles :: particles where
  "example_particles = initial_particles example_particle_config [0, 0] [0, 0] [0, 3] [0, 4]"

subsection \<open>No interaction\<close>



subsection \<open>The interaction block on float64 values\<close>

text \<open>
  The blocks above are over the reals. This subsection follows the same block on
  float64 values, to see what it does when a result leaves the range of float64. A
  float64 value is a finite number, one of the two infinities or nan. The largest finite
  float64 is \<open>2 ^ 1024 - 2 ^ 971\<close>; a result of an operation on finite operands whose
  magnitude reaches \<open>2 ^ 1024 - 2 ^ 970\<close> does not round to a finite float64 and is the
  infinity of its sign. The rounding of a result below that bound, underflow and the
  sign of zero are left out: such a result is kept as the exact real. The operations on
  infinities and nan are those of IEEE 754, which NumPy follows on arrays (it warns and
  does not raise).
\<close>

datatype float64 = Finite real | PosInf | NegInf | NaN


definition round64 :: "real \<Rightarrow> float64" where
  "round64 r = (if 2 ^ 1024 - 2 ^ 970 \<le> r then PosInf
                else if r \<le> - (2 ^ 1024 - 2 ^ 970) then NegInf
                else Finite r)"


definition signed_inf :: "bool \<Rightarrow> float64" where
  "signed_inf positive = (if positive then PosInf else NegInf)"

fun fneg :: "float64 \<Rightarrow> float64" where
  "fneg (Finite a) = Finite (- a)"
| "fneg PosInf = NegInf"
| "fneg NegInf = PosInf"
| "fneg NaN = NaN"

fun fadd :: "float64 \<Rightarrow> float64 \<Rightarrow> float64" where
  "fadd NaN b = NaN"
| "fadd a NaN = NaN"
| "fadd (Finite a) (Finite b) = round64 (a + b)"
| "fadd PosInf NegInf = NaN"
| "fadd NegInf PosInf = NaN"
| "fadd PosInf b = PosInf"
| "fadd NegInf b = NegInf"
| "fadd (Finite a) b = b"

definition fsub :: "float64 \<Rightarrow> float64 \<Rightarrow> float64" where
  "fsub a b = fadd a (fneg b)"

fun fmul :: "float64 \<Rightarrow> float64 \<Rightarrow> float64" where
  "fmul NaN b = NaN"
| "fmul a NaN = NaN"
| "fmul (Finite a) (Finite b) = round64 (a * b)"
| "fmul (Finite a) PosInf = (if a = 0 then NaN else signed_inf (0 < a))"
| "fmul (Finite a) NegInf = (if a = 0 then NaN else signed_inf (a < 0))"
| "fmul PosInf (Finite b) = (if b = 0 then NaN else signed_inf (0 < b))"
| "fmul NegInf (Finite b) = (if b = 0 then NaN else signed_inf (b < 0))"
| "fmul PosInf PosInf = PosInf"
| "fmul PosInf NegInf = NegInf"
| "fmul NegInf PosInf = NegInf"
| "fmul NegInf NegInf = PosInf"

fun fdiv :: "float64 \<Rightarrow> float64 \<Rightarrow> float64" where
  "fdiv NaN b = NaN"
| "fdiv a NaN = NaN"
| "fdiv (Finite a) (Finite b) =
     (if b = 0 then (if a = 0 then NaN else signed_inf (0 < a)) else round64 (a / b))"
| "fdiv (Finite a) b = Finite 0"
| "fdiv PosInf (Finite b) = signed_inf (0 \<le> b)"
| "fdiv NegInf (Finite b) = signed_inf (b < 0)"
| "fdiv a b = NaN"

fun fsqrt :: "float64 \<Rightarrow> float64" where
  "fsqrt (Finite a) = (if a < 0 then NaN else Finite (sqrt a))"
| "fsqrt PosInf = PosInf"
| "fsqrt NegInf = NaN"
| "fsqrt NaN = NaN"

text \<open>
  The comparisons \<^verbatim>\<open>r > 0\<close> and \<^verbatim>\<open>r == 0\<close>, which are false of nan, and a boolean
  as a factor or a summand.
\<close>

fun gt0 :: "float64 \<Rightarrow> bool" where
  "gt0 (Finite a) = (0 < a)"
| "gt0 PosInf = True"
| "gt0 NegInf = False"
| "gt0 NaN = False"

fun eq0 :: "float64 \<Rightarrow> bool" where
  "eq0 (Finite a) = (a = 0)"
| "eq0 b = False"

definition of_bool64 :: "bool \<Rightarrow> float64" where
  "of_bool64 b = Finite (if b then 1 else 0)"

text \<open>\<^verbatim>\<open>def kprime(r): return 0*(r==0)+1*(r>0)\<close>\<close>

definition notebook_kprime64 :: "float64 \<Rightarrow> float64" where
  "notebook_kprime64 r =
     fadd (fmul (Finite 0) (of_bool64 (eq0 r))) (fmul (Finite 1) (of_bool64 (gt0 r)))"

text \<open>An elementwise operation on two matrices of one shape.\<close>

definition mzip64 ::
  "(float64 \<Rightarrow> float64 \<Rightarrow> float64) \<Rightarrow> float64 list list \<Rightarrow> float64 list list
     \<Rightarrow> float64 list list" where
  "mzip64 f A B = map2 (map2 f) A B"

text \<open>
  The block, line by line as in \<open>interactions\<close>; \<^verbatim>\<open>xDiff**2\<close> is the product of
  \<open>xDiff\<close> with itself.
\<close>

definition interactions64 ::
  "(float64 \<Rightarrow> float64) \<Rightarrow> nat \<Rightarrow> nat
     \<Rightarrow> float64 list \<Rightarrow> float64 list \<Rightarrow> float64 list \<Rightarrow> float64 list
     \<Rightarrow> float64 list list \<times> float64 list list \<times> float64 list list" where
  "interactions64 sprime Na Nb xa ya xb yb =
     (let xDiff = mzip64 fsub (map (replicate Nb) xa) (replicate Na xb);
          yDiff = mzip64 fsub (map (replicate Nb) ya) (replicate Na yb);
          normDiff = map (map fsqrt)
                       (mzip64 fadd (map (map (\<lambda>v. fmul v v)) xDiff)
                                    (map (map (\<lambda>v. fmul v v)) yDiff));
          normDiff = map (map (\<lambda>r. fadd (fmul r (of_bool64 (gt0 r)))
                                        (fmul (Finite 1) (of_bool64 (eq0 r))))) normDiff;
          dxS = mzip64 fdiv (mzip64 fmul xDiff (map (map sprime) normDiff)) normDiff;
          dyS = mzip64 fdiv (mzip64 fmul yDiff (map (map sprime) normDiff)) normDiff
      in (normDiff, dxS, dyS))"

section \<open>Properties of the continuum model\<close>

subsection \<open>Arrays\<close>

lemma length_vadd [simp]: "length (vadd xs ys) = min (length xs) (length ys)"
  by (simp add: vadd_def)
lemma length_vsub [simp]: "length (vsub xs ys) = min (length xs) (length ys)"
  by (simp add: vsub_def)
lemma length_vmul [simp]: "length (vmul xs ys) = min (length xs) (length ys)"
  by (simp add: vmul_def)
lemma length_vneg [simp]: "length (vneg xs) = length xs"
  by (simp add: vneg_def)
lemma length_smul [simp]: "length (smul c xs) = length xs"
  by (simp add: smul_def)
lemma length_ge0 [simp]: "length (ge0 xs) = length xs"
  by (simp add: ge0_def)
lemma length_le0 [simp]: "length (le0 xs) = length xs"
  by (simp add: le0_def)

lemma nth_vadd [simp]: "i < length xs \<Longrightarrow> i < length ys \<Longrightarrow> vadd xs ys ! i = xs ! i + ys ! i"
  by (simp add: vadd_def)
lemma nth_vsub [simp]: "i < length xs \<Longrightarrow> i < length ys \<Longrightarrow> vsub xs ys ! i = xs ! i - ys ! i"
  by (simp add: vsub_def)
lemma nth_vmul [simp]: "i < length xs \<Longrightarrow> i < length ys \<Longrightarrow> vmul xs ys ! i = xs ! i * ys ! i"
  by (simp add: vmul_def)
lemma nth_vneg [simp]: "i < length xs \<Longrightarrow> vneg xs ! i = - (xs ! i)"
  by (simp add: vneg_def)
lemma nth_smul [simp]: "i < length xs \<Longrightarrow> smul c xs ! i = c * xs ! i"
  by (simp add: smul_def)

lemma nth_ge0 [simp]: "i < length xs \<Longrightarrow> ge0 xs ! i = indicator01 (0 \<le> xs ! i)"
  by (simp add: ge0_def)
lemma nth_le0 [simp]: "i < length xs \<Longrightarrow> le0 xs ! i = indicator01 (xs ! i \<le> 0)"
  by (simp add: le0_def)
lemma mult_indicator_pos [simp]: "x * indicator01 (0 \<le> x) = pos_part x"
  by (simp add: indicator01_def pos_part_def)
lemma mult_indicator_neg [simp]: "x * indicator01 (x \<le> 0) = - neg_part x"
  by (simp add: indicator01_def neg_part_def)


lemma length_assign_from_1 [simp]:
  "length (assign_from_1 dp v) = min (length dp) 1 + length v"
  by (simp add: assign_from_1_def)

lemma length_assign_to_last [simp]:
  "length (assign_to_last gm v) = length v + (length gm - (length gm - 1))"
  by (simp add: assign_to_last_def)

lemma nth_assign_from_1_0: "0 < length dp \<Longrightarrow> assign_from_1 dp v ! 0 = dp ! 0"
  by (cases dp) (simp_all add: assign_from_1_def)

lemma nth_assign_from_1_Suc:
  "0 < length dp \<Longrightarrow> assign_from_1 dp v ! Suc i = v ! i"
  by (cases dp) (simp_all add: assign_from_1_def)

lemma nth_assign_to_last_less:
  "i < length v \<Longrightarrow> assign_to_last gm v ! i = v ! i"
  by (simp add: assign_to_last_def nth_append)

lemma nth_assign_to_last_last:
  "length gm = Suc k \<Longrightarrow> length v = k \<Longrightarrow> assign_to_last gm v ! k = gm ! k"
  by (simp add: assign_to_last_def nth_append)

lemma upwind_length:
  assumes "length a = N" "length rho = N" "length dp = N" "length gm = N"
  shows "length (fst (upwind \<Delta>t \<Delta>x a rho dp gm)) = N"
    and "length (fst (snd (upwind \<Delta>t \<Delta>x a rho dp gm))) = N"
    and "length (snd (snd (upwind \<Delta>t \<Delta>x a rho dp gm))) = N"
  using assms by (simp_all add: upwind_def Let_def)

lemma upwind_buffers:
  assumes "length a = N" "length rho = N" "length dp = N" "length gm = N" "0 < N"
    and "dp ! 0 = 0" "gm ! (N - 1) = 0"
  shows "fst (snd (upwind \<Delta>t \<Delta>x a rho dp gm)) ! 0 = 0"
    and "snd (snd (upwind \<Delta>t \<Delta>x a rho dp gm)) ! (N - 1) = 0"
proof -
  obtain k where k: "N = Suc k" using \<open>0 < N\<close> by (cases N) auto
  show "fst (snd (upwind \<Delta>t \<Delta>x a rho dp gm)) ! 0 = 0"
    using assms by (simp add: upwind_def Let_def nth_assign_from_1_0)
  show "snd (snd (upwind \<Delta>t \<Delta>x a rho dp gm)) ! (N - 1) = 0"
    using assms k by (simp add: upwind_def Let_def nth_assign_to_last_last)
qed

lemma upwind_nth:
  assumes len: "length a = N" "length rho = N" "length dp = N" "length gm = N"
    and edge: "dp ! 0 = 0" "gm ! (N - 1) = 0" and i: "i < N"
  shows "fst (upwind \<Delta>t \<Delta>x a rho dp gm) ! i =
           rho ! i - \<Delta>t / \<Delta>x * (interface_flux a rho (Suc i) - interface_flux a rho i)"
proof -
  define ap where "ap = vmul a (ge0 a)"
  define am where "am = vmul (vneg a) (le0 a)"
  define dp' where "dp' = assign_from_1 dp (vmul (butlast ap) (butlast rho))"
  define gm' where "gm' = assign_to_last gm (vmul (tl am) (tl rho))"
  have lens: "length ap = N" "length am = N" "length dp' = N" "length gm' = N"
    using len i by (simp_all add: ap_def am_def dp'_def gm'_def)
  have ap: "ap ! i = pos_part (a ! i)" and am: "am ! i = neg_part (a ! i)"
    using len i by (simp_all add: ap_def am_def)
  have dp: "dp' ! i = (if i = 0 then 0 else pos_part (a ! (i - 1)) * rho ! (i - 1))"
  proof (cases i)
    case 0
    then show ?thesis using len i edge by (simp add: dp'_def nth_assign_from_1_0)
  next
    case (Suc k)
    then have "k < N - 1" using i by simp
    then show ?thesis using Suc len
      by (simp add: dp'_def nth_assign_from_1_Suc nth_butlast ap_def)
  qed
  have gm: "gm' ! i = (if Suc i < N then neg_part (a ! Suc i) * rho ! Suc i else 0)"
  proof (cases "Suc i < N")
    case True
    then show ?thesis using len
      by (simp add: gm'_def nth_assign_to_last_less nth_tl am_def)
  next
    case False
    then have "N = Suc i" using i by simp
    then show ?thesis using len edge False lens
      by (simp add: gm'_def nth_assign_to_last_last [where k = i])
  qed
  have "fst (upwind \<Delta>t \<Delta>x a rho dp gm) =
          vsub rho (smul (\<Delta>t / \<Delta>x) (vsub (vsub (vadd (vmul ap rho) (vmul am rho)) dp') gm'))"
    by (simp add: upwind_def Let_def ap_def am_def dp'_def gm'_def)
  then have "fst (upwind \<Delta>t \<Delta>x a rho dp gm) ! i =
          rho ! i - \<Delta>t / \<Delta>x * (ap ! i * rho ! i + am ! i * rho ! i - dp' ! i - gm' ! i)"
    using lens len i by simp
  also have "ap ! i * rho ! i + am ! i * rho ! i - dp' ! i - gm' ! i =
          interface_flux a rho (Suc i) - interface_flux a rho i"
    using i len by (simp add: ap am dp gm interface_flux_def)
  finally show ?thesis .
qed


lemma pos_part_nonneg [simp]: "0 \<le> pos_part x"
  by (simp add: pos_part_def)

lemma neg_part_nonneg [simp]: "0 \<le> neg_part x"
  by (simp add: neg_part_def)

lemma pos_part_plus_neg_part: "pos_part x + neg_part x = \<bar>x\<bar>"
  by (simp add: pos_part_def neg_part_def max_def)

lemma upwind_sum:
  assumes len: "length a = N" "length rho = N" "length dp = N" "length gm = N"
    and edge: "dp ! 0 = 0" "gm ! (N - 1) = 0" and N: "0 < N"
  shows "sum_list (fst (upwind \<Delta>t \<Delta>x a rho dp gm)) =
           sum_list rho
           - \<Delta>t / \<Delta>x * (pos_part (a ! (N - 1)) * rho ! (N - 1) + neg_part (a ! 0) * rho ! 0)"
proof -
  let ?r = "fst (upwind \<Delta>t \<Delta>x a rho dp gm)"
  let ?F = "interface_flux a rho"
  define c where "c = \<Delta>t / \<Delta>x"
  have "sum_list ?r = (\<Sum>i<N. ?r ! i)"
    using upwind_length(1) [OF len] by (simp add: sum_list_sum_nth atLeast0LessThan)
  also have "\<dots> = (\<Sum>i<N. rho ! i - c * (?F (Suc i) - ?F i))"
    by (rule sum.cong) (simp_all add: upwind_nth [OF len edge] c_def)
  also have "\<dots> = (\<Sum>i<N. rho ! i) - (\<Sum>i<N. c * (?F (Suc i) - ?F i))"
    by (rule sum_subtractf)
  also have "(\<Sum>i<N. c * (?F (Suc i) - ?F i)) = c * (\<Sum>i<N. ?F (Suc i) - ?F i)"
    by (rule sum_distrib_left [symmetric])
  also have "(\<Sum>i<N. ?F (Suc i) - ?F i) = ?F N - ?F 0"
    by (rule sum_lessThan_telescope)
  also have "(\<Sum>i<N. rho ! i) = sum_list rho"
    using len by (simp add: sum_list_sum_nth atLeast0LessThan)
  also have "?F N - ?F 0 = pos_part (a ! (N - 1)) * rho ! (N - 1) + neg_part (a ! 0) * rho ! 0"
    using len N by (simp add: interface_flux_def)
  finally show ?thesis by (simp add: c_def)
qed

lemma nonneg_nth: "nonneg xs \<Longrightarrow> i < length xs \<Longrightarrow> 0 \<le> xs ! i"
  by (simp add: nonneg_def list_all_length)

lemma nonnegI: "(\<And>i. i < length xs \<Longrightarrow> 0 \<le> xs ! i) \<Longrightarrow> nonneg xs"
  by (simp add: nonneg_def list_all_length)

lemma cfl_nth:
  assumes "cfl \<Delta>t \<Delta>x a" "0 \<le> \<Delta>t" "0 < \<Delta>x" "i < length a"
  shows "\<Delta>t / \<Delta>x * \<bar>a ! i\<bar> \<le> 1"
proof -
  have "\<bar>a ! i\<bar> \<in> set (map abs a)"
    using assms(4) by (metis length_map nth_map nth_mem)
  then have "\<bar>a ! i\<bar> \<le> Max (set (map abs a))"
    by simp
  moreover have "0 \<le> \<Delta>t / \<Delta>x" using assms by simp
  ultimately have "\<Delta>t / \<Delta>x * \<bar>a ! i\<bar> \<le> \<Delta>t / \<Delta>x * Max (set (map abs a))"
    by (rule mult_left_mono)
  also have "\<dots> \<le> 1" using assms(1) by (simp add: cfl_def)
  finally show ?thesis .
qed

lemma upwind_nonneg:
  assumes len: "length a = N" "length rho = N" "length dp = N" "length gm = N"
    and edge: "dp ! 0 = 0" "gm ! (N - 1) = 0"
    and c: "0 \<le> \<Delta>t" "0 < \<Delta>x" and cfl: "cfl \<Delta>t \<Delta>x a" and rho: "nonneg rho"
  shows "nonneg (fst (upwind \<Delta>t \<Delta>x a rho dp gm))"
proof (rule nonnegI)
  fix i assume "i < length (fst (upwind \<Delta>t \<Delta>x a rho dp gm))"
  then have i: "i < N" using upwind_length(1) [OF len] by simp
  define c where "c = \<Delta>t / \<Delta>x"
  have c0: "0 \<le> c" using c by (simp add: c_def)
  have r: "\<And>j. j < N \<Longrightarrow> 0 \<le> rho ! j" using rho len by (simp add: nonneg_nth)
  define inflow where "inflow =
      (if i = 0 then 0 else pos_part (a ! (i - 1)) * rho ! (i - 1))
    + (if Suc i < N then neg_part (a ! Suc i) * rho ! Suc i else 0)"
  have inflow: "0 \<le> inflow"
    using i by (auto simp: inflow_def intro!: add_nonneg_nonneg mult_nonneg_nonneg r)
  have "c * \<bar>a ! i\<bar> \<le> 1"
    using cfl_nth [OF cfl c] i len by (simp add: c_def)
  then have keep: "0 \<le> rho ! i * (1 - c * \<bar>a ! i\<bar>)"
    using r [OF i] by simp
  have "fst (upwind \<Delta>t \<Delta>x a rho dp gm) ! i =
          rho ! i - c * (interface_flux a rho (Suc i) - interface_flux a rho i)"
    using upwind_nth [OF len edge i] by (simp add: c_def)
  also have "interface_flux a rho (Suc i) - interface_flux a rho i =
          (pos_part (a ! i) + neg_part (a ! i)) * rho ! i - inflow"
    using i len by (simp add: interface_flux_def inflow_def algebra_simps)
  also have "rho ! i - c * ((pos_part (a ! i) + neg_part (a ! i)) * rho ! i - inflow) =
          rho ! i * (1 - c * \<bar>a ! i\<bar>) + c * inflow"
    unfolding pos_part_plus_neg_part by (simp add: algebra_simps)
  finally show "0 \<le> fst (upwind \<Delta>t \<Delta>x a rho dp gm) ! i"
    using keep c0 inflow by simp
qed


subsection \<open>One iteration\<close>

lemma velocities_frame [simp]:
  "W1p (velocities b st) = W1p st" "W2p (velocities b st) = W2p st"
  "Kp (velocities b st) = Kp st"
  "rho1 (velocities b st) = rho1 st" "rho2 (velocities b st) = rho2 st"
  "rho1_dp (velocities b st) = rho1_dp st" "rho1_gm (velocities b st) = rho1_gm st"
  "rho2_dp (velocities b st) = rho2_dp st" "rho2_gm (velocities b st) = rho2_gm st"
  "cpt (velocities b st) = cpt st" "n (velocities b st) = n st" "t (velocities b st) = t st"
  by (simp_all add: velocities_def)

lemma velocity_loop_vars [simp]:
  "velocity1 b (st \<lparr> n := x, t := y \<rparr>) = velocity1 b st"
  "velocity2 b (st \<lparr> n := x, t := y \<rparr>) = velocity2 b st"
  by (simp_all add: velocity1_def velocity2_def velocities_def)

lemma step_rho1:
  "rho1 (step \<Delta>t \<Delta>x b nt st) =
     fst (upwind \<Delta>t \<Delta>x (velocity1 b st) (rho1 st) (rho1_dp st) (rho1_gm st))"
  "rho1_dp (step \<Delta>t \<Delta>x b nt st) =
     fst (snd (upwind \<Delta>t \<Delta>x (velocity1 b st) (rho1 st) (rho1_dp st) (rho1_gm st)))"
  "rho1_gm (step \<Delta>t \<Delta>x b nt st) =
     snd (snd (upwind \<Delta>t \<Delta>x (velocity1 b st) (rho1 st) (rho1_dp st) (rho1_gm st)))"
  by (simp_all add: step_def snapshot_def update_rho2_def update_rho1_def split_beta
        velocity1_def velocities_def)

lemma step_rho2:
  "rho2 (step \<Delta>t \<Delta>x b nt st) =
     fst (upwind \<Delta>t \<Delta>x (velocity2 b st) (rho2 st) (rho2_dp st) (rho2_gm st))"
  "rho2_dp (step \<Delta>t \<Delta>x b nt st) =
     fst (snd (upwind \<Delta>t \<Delta>x (velocity2 b st) (rho2 st) (rho2_dp st) (rho2_gm st)))"
  "rho2_gm (step \<Delta>t \<Delta>x b nt st) =
     snd (snd (upwind \<Delta>t \<Delta>x (velocity2 b st) (rho2 st) (rho2_dp st) (rho2_gm st)))"
  by (simp_all add: step_def snapshot_def update_rho2_def update_rho1_def split_beta
        velocity2_def velocities_def)

lemma step_frame:
  "W1p (step \<Delta>t \<Delta>x b nt st) = W1p st" "W2p (step \<Delta>t \<Delta>x b nt st) = W2p st"
  "Kp (step \<Delta>t \<Delta>x b nt st) = Kp st"
  "a1 (step \<Delta>t \<Delta>x b nt st) = velocity1 b st" "a2 (step \<Delta>t \<Delta>x b nt st) = velocity2 b st"
  "n (step \<Delta>t \<Delta>x b nt st) = Some (fst nt)" "t (step \<Delta>t \<Delta>x b nt st) = Some (snd nt)"
  by (simp_all add: step_def snapshot_def update_rho2_def update_rho1_def split_beta
        velocity1_def velocity2_def velocities_def)

lemma length_dot [simp]: "length (dot M v) = length M"
  by (simp add: dot_def)

lemma length_velocity:
  assumes "shaped N st"
  shows "length (velocity1 b st) = N" "length (velocity2 b st) = N"
  using assms by (simp_all add: velocity1_def velocity2_def velocities_def shaped_def square_def)

lemma shaped_step:
  assumes "shaped N st"
  shows "shaped N (step \<Delta>t \<Delta>x b nt st)"
proof -
  have len1: "length (velocity1 b st) = N" "length (rho1 st) = N"
      "length (rho1_dp st) = N" "length (rho1_gm st) = N"
    and len2: "length (velocity2 b st) = N" "length (rho2 st) = N"
      "length (rho2_dp st) = N" "length (rho2_gm st) = N"
    and N: "0 < N"
    and e1: "rho1_dp st ! 0 = 0" "rho1_gm st ! (N - 1) = 0"
    and e2: "rho2_dp st ! 0 = 0" "rho2_gm st ! (N - 1) = 0"
    using assms length_velocity [OF assms] by (simp_all add: shaped_def)
  show ?thesis
    unfolding shaped_def step_rho1 step_rho2 step_frame
    using assms upwind_length [OF len1] upwind_length [OF len2]
      upwind_buffers [OF len1 N e1] upwind_buffers [OF len2 N e2]
    by (simp add: shaped_def)
qed

lemma step_mass:
  assumes "shaped N st"
  shows "mass (rho1 (step \<Delta>t \<Delta>x b nt st)) =
           mass (rho1 st)
           - \<Delta>t / \<Delta>x * (pos_part (velocity1 b st ! (N - 1)) * rho1 st ! (N - 1)
                        + neg_part (velocity1 b st ! 0) * rho1 st ! 0)"
    and "mass (rho2 (step \<Delta>t \<Delta>x b nt st)) =
           mass (rho2 st)
           - \<Delta>t / \<Delta>x * (pos_part (velocity2 b st ! (N - 1)) * rho2 st ! (N - 1)
                        + neg_part (velocity2 b st ! 0) * rho2 st ! 0)"
proof -
  have len1: "length (velocity1 b st) = N" "length (rho1 st) = N"
      "length (rho1_dp st) = N" "length (rho1_gm st) = N"
    and len2: "length (velocity2 b st) = N" "length (rho2 st) = N"
      "length (rho2_dp st) = N" "length (rho2_gm st) = N"
    and N: "0 < N"
    and e1: "rho1_dp st ! 0 = 0" "rho1_gm st ! (N - 1) = 0"
    and e2: "rho2_dp st ! 0 = 0" "rho2_gm st ! (N - 1) = 0"
    using assms length_velocity [OF assms] by (simp_all add: shaped_def)
  show "mass (rho1 (step \<Delta>t \<Delta>x b nt st)) =
           mass (rho1 st)
           - \<Delta>t / \<Delta>x * (pos_part (velocity1 b st ! (N - 1)) * rho1 st ! (N - 1)
                        + neg_part (velocity1 b st ! 0) * rho1 st ! 0)"
    unfolding mass_def step_rho1 by (rule upwind_sum [OF len1 e1 N])
  show "mass (rho2 (step \<Delta>t \<Delta>x b nt st)) =
           mass (rho2 st)
           - \<Delta>t / \<Delta>x * (pos_part (velocity2 b st ! (N - 1)) * rho2 st ! (N - 1)
                        + neg_part (velocity2 b st ! 0) * rho2 st ! 0)"
    unfolding mass_def step_rho2 by (rule upwind_sum [OF len2 e2 N])
qed


lemma step_nonneg:
  assumes "shaped N st" "0 \<le> \<Delta>t" "0 < \<Delta>x"
  shows "cfl \<Delta>t \<Delta>x (velocity1 b st) \<Longrightarrow> nonneg (rho1 st) \<Longrightarrow> nonneg (rho1 (step \<Delta>t \<Delta>x b nt st))"
    and "cfl \<Delta>t \<Delta>x (velocity2 b st) \<Longrightarrow> nonneg (rho2 st) \<Longrightarrow> nonneg (rho2 (step \<Delta>t \<Delta>x b nt st))"
proof -
  have len1: "length (velocity1 b st) = N" "length (rho1 st) = N"
      "length (rho1_dp st) = N" "length (rho1_gm st) = N"
    and len2: "length (velocity2 b st) = N" "length (rho2 st) = N"
      "length (rho2_dp st) = N" "length (rho2_gm st) = N"
    and e1: "rho1_dp st ! 0 = 0" "rho1_gm st ! (N - 1) = 0"
    and e2: "rho2_dp st ! 0 = 0" "rho2_gm st ! (N - 1) = 0"
    using assms length_velocity [OF assms(1)] by (simp_all add: shaped_def)
  show "cfl \<Delta>t \<Delta>x (velocity1 b st) \<Longrightarrow> nonneg (rho1 st) \<Longrightarrow> nonneg (rho1 (step \<Delta>t \<Delta>x b nt st))"
    unfolding step_rho1 by (rule upwind_nonneg [OF len1 e1 assms(2,3)])
  show "cfl \<Delta>t \<Delta>x (velocity2 b st) \<Longrightarrow> nonneg (rho2 st) \<Longrightarrow> nonneg (rho2 (step \<Delta>t \<Delta>x b nt st))"
    unfolding step_rho2 by (rule upwind_nonneg [OF len2 e2 assms(2,3)])
qed

subsection \<open>Trajectories\<close>

lemma trajectory_nonempty [simp]: "trajectory \<Delta>t \<Delta>x b nts st \<noteq> []"
  by (cases nts) simp_all

lemma length_trajectory [simp]: "length (trajectory \<Delta>t \<Delta>x b nts st) = Suc (length nts)"
  by (induction nts arbitrary: st) simp_all

lemma hd_trajectory [simp]: "hd (trajectory \<Delta>t \<Delta>x b nts st) = st"
  by (cases nts) simp_all


lemma butlast_trajectory_Cons:
  "butlast (trajectory \<Delta>t \<Delta>x b (nt # nts) st) =
     st # butlast (trajectory \<Delta>t \<Delta>x b nts (step \<Delta>t \<Delta>x b nt st))"
  by simp

lemma trajectory_shaped:
  "shaped N st \<Longrightarrow> s \<in> set (trajectory \<Delta>t \<Delta>x b nts st) \<Longrightarrow> shaped N s"
proof (induction nts arbitrary: st)
  case Nil
  then show ?case by simp
next
  case (Cons nt nts)
  from Cons.prems(2) consider "s = st"
    | "s \<in> set (trajectory \<Delta>t \<Delta>x b nts (step \<Delta>t \<Delta>x b nt st))"
    by auto
  then show ?case
  proof cases
    case 1
    then show ?thesis using Cons.prems(1) by simp
  next
    case 2
    then show ?thesis using Cons.IH [OF shaped_step [OF Cons.prems(1)]] by blast
  qed
qed

lemma trajectory_kernels:
  "s \<in> set (trajectory \<Delta>t \<Delta>x b nts st) \<Longrightarrow>
     W1p s = W1p st \<and> W2p s = W2p st \<and> Kp s = Kp st"
proof (induction nts arbitrary: st)
  case Nil
  then show ?case by simp
next
  case (Cons nt nts)
  from Cons.prems consider "s = st"
    | "s \<in> set (trajectory \<Delta>t \<Delta>x b nts (step \<Delta>t \<Delta>x b nt st))"
    by auto
  then show ?case
  proof cases
    case 1
    then show ?thesis by simp
  next
    case 2
    then show ?thesis using Cons.IH [OF 2] by (simp add: step_frame)
  qed
qed

subsection \<open>Set-up\<close>

lemma getitem_map_upt:
  "getitem (map f [0..<k]) i = (if i < k then Inr (f i) else Inl IndexError)"
  by (simp add: getitem_def)

lemma parameters_Inr:
  assumes "parameters cfg = Inr d"
  shows "2 \<le> Nx cfg" and "2 \<le> Nt cfg"
    and "grid d = map (\<lambda>i. xmin cfg + real i * ((xmax cfg - xmin cfg) / real_of_int (Nx cfg - 1)))
                    [0..<nat (Nx cfg)]"
    and "T d = map (\<lambda>i. real i * (tf cfg / real_of_int (Nt cfg - 1))) [0..<nat (Nt cfg)]"
    and "Dx d = (xmax cfg - xmin cfg) / real_of_int (Nx cfg - 1)"
    and "Dt d = tf cfg / real_of_int (Nt cfg - 1)"
  using assms
  by (auto simp: parameters_def linspace_def getitem_map_upt split: if_splits)

lemma parameters_Inl:
  assumes "Nx cfg < 2 \<or> Nt cfg < 2"
  shows "isl (parameters cfg)"
  using assms
  by (auto simp: parameters_def linspace_def getitem_map_upt)

lemma parameters_ok:
  assumes "2 \<le> Nx cfg" "2 \<le> Nt cfg"
  shows "\<not> isl (parameters cfg)"
  using assms
  by (auto simp: parameters_def linspace_def getitem_map_upt)

lemma square_kernel_matrix: "square (length g) (kernel_matrix f g)"
  by (simp add: square_def kernel_matrix_def list_all_iff)

lemma length_normalised [simp]: "length (normalised f g) = length g"
  by (simp add: normalised_def Let_def)

lemma shaped_initial:
  assumes "parameters cfg = Inr d"
  shows "shaped (nat (Nx cfg)) (initial cfg d)"
proof -
  have len: "length (grid d) = nat (Nx cfg)" and N: "2 \<le> Nx cfg"
    using parameters_Inr [OF assms] by simp_all
  show ?thesis
    using N square_kernel_matrix [of "grid d"]
    by (simp add: shaped_def initial_def zeros_def len)
qed

lemma run_states_shaped:
  assumes "parameters cfg = Inr d" "s \<in> set (run_states cfg d)"
  shows "shaped (nat (Nx cfg)) s"
  using trajectory_shaped [OF shaped_initial [OF assms(1)]] assms(2)
  unfolding run_states_def by blast


lemma initial_in_run_states: "initial cfg d \<in> set (run_states cfg d)"
  unfolding run_states_def
  by (metis hd_in_set hd_trajectory trajectory_nonempty)

lemma run_states_kernels:
  assumes "s \<in> set (run_states cfg d)"
  shows "W1p s = kernel_matrix (dxW1 cfg) (grid d)"
    and "W2p s = kernel_matrix (dxW2 cfg) (grid d)"
    and "Kp s = kernel_matrix (dxK cfg) (grid d)"
  using trajectory_kernels assms unfolding run_states_def
  by (fastforce simp: initial_def)+

lemma nth_kernel_matrix:
  "i < length g \<Longrightarrow> l < length g \<Longrightarrow> kernel_matrix f g ! i ! l = f (g ! i - g ! l)"
  by (simp add: kernel_matrix_def)

lemma nth_dot:
  assumes "i < length M" "length (M ! i) = length v"
  shows "dot M v ! i = (\<Sum>l<length v. M ! i ! l * v ! l)"
  using assms by (simp add: dot_def sum_list_sum_nth atLeast0LessThan)

lemma square_nth: "square N M \<Longrightarrow> i < N \<Longrightarrow> length (M ! i) = N"
  by (simp add: square_def list_all_length)

lemma velocity_nth:
  assumes "shaped N st" "i < N"
  shows "velocity1 b st ! i =
           - ((\<Sum>l<N. W1p st ! i ! l * rho1 st ! l) + (\<Sum>l<N. Kp st ! i ! l * rho2 st ! l))"
    and "velocity2 b st ! i =
           - ((\<Sum>l<N. W2p st ! i ! l * rho2 st ! l) - b * (\<Sum>l<N. Kp st ! i ! l * rho1 st ! l))"
proof -
  have sq: "square N (W1p st)" "square N (W2p st)" "square N (Kp st)"
    and len: "length (rho1 st) = N" "length (rho2 st) = N"
    using assms(1) by (simp_all add: shaped_def)
  have rows: "length (W1p st) = N" "length (W2p st) = N" "length (Kp st) = N"
    using sq by (simp_all add: square_def)
  have cols: "length (W1p st ! i) = N" "length (W2p st ! i) = N" "length (Kp st ! i) = N"
    using sq assms(2) by (simp_all add: square_nth)
  show "velocity1 b st ! i =
           - ((\<Sum>l<N. W1p st ! i ! l * rho1 st ! l) + (\<Sum>l<N. Kp st ! i ! l * rho2 st ! l))"
    using assms(2) rows cols len by (simp add: velocity1_def velocities_def nth_dot)
  show "velocity2 b st ! i =
           - ((\<Sum>l<N. W2p st ! i ! l * rho2 st ! l) - b * (\<Sum>l<N. Kp st ! i ! l * rho1 st ! l))"
    using assms(2) rows cols len by (simp add: velocity2_def velocities_def nth_dot)
qed

subsection \<open>Whole runs\<close>

lemma parameters_steps:
  assumes "parameters cfg = Inr d" "xmin cfg < xmax cfg" "0 \<le> tf cfg"
  shows "0 \<le> Dt d" and "0 < Dx d"
  using parameters_Inr [OF assms(1)] assms(2,3) by simp_all

lemma shaped_hd_last:
  assumes "shaped N st"
  shows "hd (rho1 st) = rho1 st ! 0" "last (rho1 st) = rho1 st ! (N - 1)"
    "hd (rho2 st) = rho2 st ! 0" "last (rho2 st) = rho2 st ! (N - 1)"
proof -
  have "rho1 st \<noteq> []" "rho2 st \<noteq> []" "length (rho1 st) = N" "length (rho2 st) = N"
    using assms by (auto simp: shaped_def)
  then show "hd (rho1 st) = rho1 st ! 0" "last (rho1 st) = rho1 st ! (N - 1)"
    "hd (rho2 st) = rho2 st ! 0" "last (rho2 st) = rho2 st ! (N - 1)"
    by (simp_all add: hd_conv_nth last_conv_nth)
qed

lemma step_conserves:
  assumes "shaped N st" "no_boundary_mass st"
  shows "mass (rho1 (step \<Delta>t \<Delta>x b nt st)) = mass (rho1 st)"
    and "mass (rho2 (step \<Delta>t \<Delta>x b nt st)) = mass (rho2 st)"
  using assms(2) shaped_hd_last [OF assms(1)]
  by (simp_all add: step_mass [OF assms(1)] no_boundary_mass_def)

lemma outflow_nonneg:
  assumes "0 \<le> c" "0 \<le> r0" "0 \<le> r1"
  shows "m - c * (pos_part v1 * r1 + neg_part v0 * r0) \<le> m"
proof -
  have "0 \<le> pos_part v1 * r1 + neg_part v0 * r0"
    using assms(2,3) by (simp add: add_nonneg_nonneg mult_nonneg_nonneg)
  then have "0 \<le> c * (pos_part v1 * r1 + neg_part v0 * r0)"
    using assms(1) by (simp add: mult_nonneg_nonneg)
  then show ?thesis by simp
qed

lemma step_mass_le:
  assumes "shaped N st" "0 \<le> \<Delta>t" "0 < \<Delta>x"
  shows "0 \<le> hd (rho1 st) \<Longrightarrow> 0 \<le> last (rho1 st) \<Longrightarrow>
           mass (rho1 (step \<Delta>t \<Delta>x b nt st)) \<le> mass (rho1 st)"
    and "0 \<le> hd (rho2 st) \<Longrightarrow> 0 \<le> last (rho2 st) \<Longrightarrow>
           mass (rho2 (step \<Delta>t \<Delta>x b nt st)) \<le> mass (rho2 st)"
proof -
  have c: "0 \<le> \<Delta>t / \<Delta>x" using assms(2,3) by simp
  show "0 \<le> hd (rho1 st) \<Longrightarrow> 0 \<le> last (rho1 st) \<Longrightarrow>
           mass (rho1 (step \<Delta>t \<Delta>x b nt st)) \<le> mass (rho1 st)"
    unfolding step_mass [OF assms(1)] shaped_hd_last [OF assms(1)]
    by (rule outflow_nonneg [OF c])
  show "0 \<le> hd (rho2 st) \<Longrightarrow> 0 \<le> last (rho2 st) \<Longrightarrow>
           mass (rho2 (step \<Delta>t \<Delta>x b nt st)) \<le> mass (rho2 st)"
    unfolding step_mass [OF assms(1)] shaped_hd_last [OF assms(1)]
    by (rule outflow_nonneg [OF c])
qed

lemma trajectory_cases:
  assumes "s \<in> set (trajectory \<Delta>t \<Delta>x b (nt # nts) st)"
  obtains "s = st" | "s \<in> set (trajectory \<Delta>t \<Delta>x b nts (step \<Delta>t \<Delta>x b nt st))"
  using assms by auto

lemma trajectory_conserved:
  assumes "shaped N st"
    and "\<forall>s \<in> set (butlast (trajectory \<Delta>t \<Delta>x b nts st)). no_boundary_mass s"
    and "s \<in> set (trajectory \<Delta>t \<Delta>x b nts st)"
  shows "mass (rho1 s) = mass (rho1 st) \<and> mass (rho2 s) = mass (rho2 st)"
  using assms
proof (induction nts arbitrary: st)
  case Nil
  then show ?case by simp
next
  case (Cons nt nts)
  let ?st' = "step \<Delta>t \<Delta>x b nt st"
  from Cons.prems(3) show ?case
  proof (cases rule: trajectory_cases)
    case 1
    then show ?thesis by simp
  next
    case 2
    have here: "no_boundary_mass st"
      and rest: "\<forall>s \<in> set (butlast (trajectory \<Delta>t \<Delta>x b nts ?st')). no_boundary_mass s"
      using Cons.prems(2) by simp_all
    have "mass (rho1 s) = mass (rho1 ?st') \<and> mass (rho2 s) = mass (rho2 ?st')"
      using Cons.IH [OF shaped_step [OF Cons.prems(1)] rest 2] .
    then show ?thesis
      using step_conserves [OF Cons.prems(1) here] by simp
  qed
qed

lemma trajectory_nonneg:
  assumes "shaped N st" "0 \<le> \<Delta>t" "0 < \<Delta>x"
    and "nonneg (rho1 st)" "nonneg (rho2 st)"
    and "\<forall>s \<in> set (butlast (trajectory \<Delta>t \<Delta>x b nts st)).
           cfl \<Delta>t \<Delta>x (velocity1 b s) \<and> cfl \<Delta>t \<Delta>x (velocity2 b s)"
    and "s \<in> set (trajectory \<Delta>t \<Delta>x b nts st)"
  shows "nonneg (rho1 s) \<and> nonneg (rho2 s)"
  using assms(1,4,5,6,7)
proof (induction nts arbitrary: st)
  case Nil
  then show ?case by simp
next
  case (Cons nt nts)
  let ?st' = "step \<Delta>t \<Delta>x b nt st"
  from Cons.prems(5) show ?case
  proof (cases rule: trajectory_cases)
    case 1
    then show ?thesis using Cons.prems(2,3) by simp
  next
    case 2
    have here: "cfl \<Delta>t \<Delta>x (velocity1 b st)" "cfl \<Delta>t \<Delta>x (velocity2 b st)"
      and rest: "\<forall>s \<in> set (butlast (trajectory \<Delta>t \<Delta>x b nts ?st')).
                   cfl \<Delta>t \<Delta>x (velocity1 b s) \<and> cfl \<Delta>t \<Delta>x (velocity2 b s)"
      using Cons.prems(4) by simp_all
    have pos: "nonneg (rho1 ?st')" "nonneg (rho2 ?st')"
      using step_nonneg [OF Cons.prems(1) assms(2,3)] here Cons.prems(2,3) by blast+
    show ?thesis
      using Cons.IH [OF shaped_step [OF Cons.prems(1)] pos rest 2] .
  qed
qed

subsection \<open>The small configuration, run\<close>

lemmas array_defs = vadd_def vsub_def vmul_def vneg_def smul_def ge0_def le0_def dot_def
  indicator01_def assign_from_1_def assign_to_last_def

lemmas step_defs = step_def snapshot_def update_rho1_def update_rho2_def upwind_def
  velocities_def Let_def

lemma upt_small: "[0..<5] = [0, 1, 2, 3, 4]" "[0..<3] = [0, 1, 2]"
  by code_simp+

lemma replicate_5: "replicate 5 x = [x, x, x, x, x]"
  by (simp add: numeral_eq_Suc)

lemma example_parameters: "parameters example_config = Inr example_discretisation"
  by (simp add: parameters_def example_config_def example_discretisation_def linspace_def
        getitem_def upt_small)

lemma example_representable: "representable example_config example_discretisation"
  by (simp add: representable_def example_config_def example_discretisation_def indicator01_def)

lemma example_initial: "initial example_config example_discretisation = example_state0"
  by (simp add: initial_def example_config_def example_discretisation_def normalised_def
        indicator01_def Let_def kernel_matrix_def zeros_def example_state0_def
        example_kernel_def replicate_5)

lemma example_step0:
  "step (1 / 4) (1 / 2) (3 / 10) (0, 0) example_state0 = example_state1"
  by (simp add: example_state0_def example_state1_def example_kernel_def step_defs array_defs)

lemma example_step1:
  "step (1 / 4) (1 / 2) (3 / 10) (Suc 0, 1 / 4) example_state1 = example_state2"
  by (simp add: example_state1_def example_state2_def example_kernel_def step_defs array_defs)

lemma example_step2:
  "step (1 / 4) (1 / 2) (3 / 10) (Suc (Suc 0), 1 / 2) example_state2 = example_state3"
  by (simp add: example_state2_def example_state3_def example_kernel_def step_defs array_defs)

lemma example_run:
  "run_states example_config example_discretisation =
     [example_state0, example_state1, example_state2, example_state3]"
proof -
  have "run_states example_config example_discretisation =
          trajectory (1 / 4) (1 / 2) (3 / 10)
            [(0, 0), (Suc 0, 1 / 4), (Suc (Suc 0), 1 / 2)] example_state0"
    unfolding run_states_def example_initial
    by (simp add: example_discretisation_def example_config_def)
  then show ?thesis
    by (simp add: example_step0 example_step1 example_step2)
qed

lemma example_velocities:
  "velocity1 (3 / 10) example_state0 = [2, 1, - 1, - 2, - 2]"
  "velocity2 (3 / 10) example_state0 = [7 / 10, 1, 3 / 10, - (7 / 10), - (7 / 10)]"
  "velocity1 (3 / 10) example_state1 = [2, 3 / 2, - (7 / 20), - (37 / 20), - 2]"
  "velocity2 (3 / 10) example_state1 = [7 / 10, 17 / 20, 3 / 10, - (11 / 20), - (7 / 10)]"
  "velocity1 (3 / 10) example_state2 = [2, 143 / 80, 19 / 800, - (1411 / 800), - 2]"
  "velocity2 (3 / 10) example_state2 = [7 / 10, 611 / 800, 3 / 10, - (371 / 800), - (7 / 10)]"
  by (simp_all add: velocity1_def velocity2_def velocities_def array_defs
        example_state0_def example_state1_def example_state2_def example_kernel_def)

section \<open>Claims about the continuum model\<close>




text \<open>
  C3. In every iteration of a run the velocities are \<open>a1 = -(W1p @ rho1 + Kp @ rho2)\<close>
  and \<open>a2 = -(W2p @ rho2 - beta Kp @ rho1)\<close>, entry by entry, where the three matrices
  hold the derivatives of the potentials at the differences of grid points. The
  velocities are a function of the state, they are the ones the iteration stores, and
  computing them changes neither the densities nor the matrices.
  The run is one whose divisions are by numbers other than 0 (\<open>representable\<close>).
\<close>

theorem velocity_fields:
  assumes "parameters cfg = Inr d" and "s \<in> set (run_states cfg d)" and "i < nat (Nx cfg)"
    and "representable cfg d"
  shows "a1 (velocities (beta cfg) s) ! i =
           - ((\<Sum>l<nat (Nx cfg). dxW1 cfg (grid d ! i - grid d ! l) * rho1 s ! l)
              + (\<Sum>l<nat (Nx cfg). dxK cfg (grid d ! i - grid d ! l) * rho2 s ! l))
       \<and> a2 (velocities (beta cfg) s) ! i =
           - ((\<Sum>l<nat (Nx cfg). dxW2 cfg (grid d ! i - grid d ! l) * rho2 s ! l)
              - beta cfg * (\<Sum>l<nat (Nx cfg). dxK cfg (grid d ! i - grid d ! l) * rho1 s ! l))
       \<and> W1p s = kernel_matrix (dxW1 cfg) (grid d)
       \<and> W2p s = kernel_matrix (dxW2 cfg) (grid d)
       \<and> Kp s = kernel_matrix (dxK cfg) (grid d)
       \<and> length (a1 (velocities (beta cfg) s)) = nat (Nx cfg)
       \<and> length (a2 (velocities (beta cfg) s)) = nat (Nx cfg)
       \<and> a1 (step (Dt d) (Dx d) (beta cfg) nt s) = a1 (velocities (beta cfg) s)
       \<and> a2 (step (Dt d) (Dx d) (beta cfg) nt s) = a2 (velocities (beta cfg) s)
       \<and> rho1 (velocities (beta cfg) s) = rho1 s \<and> rho2 (velocities (beta cfg) s) = rho2 s
       \<and> W1p (velocities (beta cfg) s) = W1p s \<and> W2p (velocities (beta cfg) s) = W2p s
       \<and> Kp (velocities (beta cfg) s) = Kp s"
proof -
  let ?N = "nat (Nx cfg)"
  have sh: "shaped ?N s"
    using assms(1,2) by (rule run_states_shaped)
  have len: "length (grid d) = ?N"
    using parameters_Inr(3) [OF assms(1)] by simp
  have W: "W1p s = kernel_matrix (dxW1 cfg) (grid d)"
      "W2p s = kernel_matrix (dxW2 cfg) (grid d)"
      "Kp s = kernel_matrix (dxK cfg) (grid d)"
    using run_states_kernels [OF assms(2)] by simp_all
  have entries: "\<And>f l. l < ?N \<Longrightarrow> kernel_matrix f (grid d) ! i ! l = f (grid d ! i - grid d ! l)"
    using assms(3) len by (simp add: nth_kernel_matrix)
  have v1: "a1 (velocities (beta cfg) s) ! i =
           - ((\<Sum>l<?N. dxW1 cfg (grid d ! i - grid d ! l) * rho1 s ! l)
              + (\<Sum>l<?N. dxK cfg (grid d ! i - grid d ! l) * rho2 s ! l))"
    using velocity_nth(1) [OF sh assms(3), of "beta cfg"]
    by (simp add: velocity1_def W entries)
  have v2: "a2 (velocities (beta cfg) s) ! i =
           - ((\<Sum>l<?N. dxW2 cfg (grid d ! i - grid d ! l) * rho2 s ! l)
              - beta cfg * (\<Sum>l<?N. dxK cfg (grid d ! i - grid d ! l) * rho1 s ! l))"
    using velocity_nth(2) [OF sh assms(3), of "beta cfg"]
    by (simp add: velocity2_def W entries)
  have lens: "length (a1 (velocities (beta cfg) s)) = ?N"
    "length (a2 (velocities (beta cfg) s)) = ?N"
    using length_velocity [OF sh, of "beta cfg"] by (simp_all add: velocity1_def velocity2_def)
  have stored: "a1 (step (Dt d) (Dx d) (beta cfg) nt s) = a1 (velocities (beta cfg) s)"
    "a2 (step (Dt d) (Dx d) (beta cfg) nt s) = a2 (velocities (beta cfg) s)"
    by (simp_all add: step_frame velocity1_def velocity2_def)
  show ?thesis
    using v1 v2 W lens stored by simp
qed

theorem velocity_fields_witness:
  "parameters example_config = Inr example_discretisation
   \<and> representable example_config example_discretisation
   \<and> example_state1 \<in> set (run_states example_config example_discretisation)
   \<and> (1::nat) < nat (Nx example_config)
   \<and> a1 (velocities (beta example_config) example_state1) ! 1 = 3 / 2
   \<and> a2 (velocities (beta example_config) example_state1) ! 1 = 17 / 20"
proof -
  have h1: "parameters example_config = Inr example_discretisation"
    by (rule example_parameters)
  have h0: "representable example_config example_discretisation"
    by (rule example_representable)
  have h2: "example_state1 \<in> set (run_states example_config example_discretisation)"
    by (simp add: example_run)
  have h3: "(1::nat) < nat (Nx example_config)"
    by (simp add: example_config_def)
  have five: "{..<5::nat} = {0, 1, 2, 3, 4}"
    by auto
  have "a1 (velocities (beta example_config) example_state1) ! 1 = 3 / 2
      \<and> a2 (velocities (beta example_config) example_state1) ! 1 = 17 / 20"
    using velocity_fields [OF h1 h2 h3 h0, of "(1, 1 / 4)"]
    by (simp add: example_config_def example_discretisation_def example_state1_def five)
  then show ?thesis
    using h0 h1 h2 h3 by blast
qed



text \<open>
  C1. The upwind update conserves the sums of both densities, whatever the grid spacing
  and the time step: as long as the first and the last cell are empty at the start of
  each iteration, every state of the run has the sums of the initial state, and each
  single iteration from such a state keeps them. When there is density in the first or
  last cell, an iteration does not increase the sums, for a time step that is not
  negative, a positive grid spacing and densities that are not negative in these cells.
  The run is one whose divisions are by numbers other than 0 (\<open>representable\<close>).
\<close>

theorem mass_conservation:
  assumes "parameters cfg = Inr d" and "representable cfg d"
  shows "((\<forall>s \<in> set (butlast (run_states cfg d)). no_boundary_mass s) \<longrightarrow>
            (\<forall>s \<in> set (run_states cfg d).
               mass (rho1 s) = mass (rho1 (initial cfg d))
               \<and> mass (rho2 s) = mass (rho2 (initial cfg d))))
       \<and> (\<forall>s \<in> set (run_states cfg d). no_boundary_mass s \<longrightarrow>
            mass (rho1 (step (Dt d) (Dx d) (beta cfg) nt s)) = mass (rho1 s)
            \<and> mass (rho2 (step (Dt d) (Dx d) (beta cfg) nt s)) = mass (rho2 s))
       \<and> (\<forall>s \<in> set (run_states cfg d).
            0 \<le> Dt d \<and> 0 < Dx d \<and> 0 \<le> hd (rho1 s) \<and> 0 \<le> last (rho1 s) \<longrightarrow>
            mass (rho1 (step (Dt d) (Dx d) (beta cfg) nt s)) \<le> mass (rho1 s))
       \<and> (\<forall>s \<in> set (run_states cfg d).
            0 \<le> Dt d \<and> 0 < Dx d \<and> 0 \<le> hd (rho2 s) \<and> 0 \<le> last (rho2 s) \<longrightarrow>
            mass (rho2 (step (Dt d) (Dx d) (beta cfg) nt s)) \<le> mass (rho2 s))"
proof -
  have sh0: "shaped (nat (Nx cfg)) (initial cfg d)"
    using assms(1) by (rule shaped_initial)
  have sh: "\<And>s. s \<in> set (run_states cfg d) \<Longrightarrow> shaped (nat (Nx cfg)) s"
    using assms(1) by (rule run_states_shaped)
  have whole: "mass (rho1 s) = mass (rho1 (initial cfg d))
      \<and> mass (rho2 s) = mass (rho2 (initial cfg d))"
    if "\<forall>s \<in> set (butlast (run_states cfg d)). no_boundary_mass s"
      and "s \<in> set (run_states cfg d)" for s
    using trajectory_conserved [OF sh0] that unfolding run_states_def by blast
  have one: "mass (rho1 (step (Dt d) (Dx d) (beta cfg) nt s)) = mass (rho1 s)
      \<and> mass (rho2 (step (Dt d) (Dx d) (beta cfg) nt s)) = mass (rho2 s)"
    if "s \<in> set (run_states cfg d)" "no_boundary_mass s" for s
    using step_conserves [OF sh [OF that(1)] that(2)] by simp
  have le1: "mass (rho1 (step (Dt d) (Dx d) (beta cfg) nt s)) \<le> mass (rho1 s)"
    if "s \<in> set (run_states cfg d)" "0 \<le> Dt d" "0 < Dx d"
      "0 \<le> hd (rho1 s)" "0 \<le> last (rho1 s)" for s
    using step_mass_le(1) [OF sh [OF that(1)] that(2,3)] that(4,5) by simp
  have le2: "mass (rho2 (step (Dt d) (Dx d) (beta cfg) nt s)) \<le> mass (rho2 s)"
    if "s \<in> set (run_states cfg d)" "0 \<le> Dt d" "0 < Dx d"
      "0 \<le> hd (rho2 s)" "0 \<le> last (rho2 s)" for s
    using step_mass_le(2) [OF sh [OF that(1)] that(2,3)] that(4,5) by simp
  show ?thesis
    using whole one le1 le2 by blast
qed

theorem mass_conservation_witness:
  "parameters example_config = Inr example_discretisation
   \<and> representable example_config example_discretisation
   \<and> list_all no_boundary_mass (butlast (run_states example_config example_discretisation))
   \<and> example_state3 \<in> set (run_states example_config example_discretisation)
   \<and> mass (rho1 example_state3) = mass (rho1 (initial example_config example_discretisation))
   \<and> mass (rho2 example_state3) = mass (rho2 (initial example_config example_discretisation))
   \<and> no_boundary_mass example_state3
   \<and> mass (rho1 (step (Dt example_discretisation) (Dx example_discretisation)
        (beta example_config) (3, 3 / 4) example_state3)) = mass (rho1 example_state3)
   \<and> 0 \<le> Dt example_discretisation \<and> 0 < Dx example_discretisation
   \<and> 0 \<le> hd (rho2 example_state3) \<and> 0 \<le> last (rho2 example_state3)
   \<and> mass (rho2 (step (Dt example_discretisation) (Dx example_discretisation)
        (beta example_config) (3, 3 / 4) example_state3)) \<le> mass (rho2 example_state3)"
proof -
  have h1: "parameters example_config = Inr example_discretisation"
    by (rule example_parameters)
  have h0: "representable example_config example_discretisation"
    by (rule example_representable)
  have h2: "\<forall>s \<in> set (butlast (run_states example_config example_discretisation)).
      no_boundary_mass s"
    by (simp add: example_run no_boundary_mass_def example_state0_def example_state1_def
          example_state2_def)
  have h3: "example_state3 \<in> set (run_states example_config example_discretisation)"
    by (simp add: example_run)
  have h4: "no_boundary_mass example_state3"
    by (simp add: no_boundary_mass_def example_state3_def)
  have h5: "0 \<le> Dt example_discretisation \<and> 0 < Dx example_discretisation
      \<and> 0 \<le> hd (rho2 example_state3) \<and> 0 \<le> last (rho2 example_state3)"
    by (simp add: example_discretisation_def example_state3_def)
  show ?thesis
    using mass_conservation [OF h1 h0, of "(3, 3 / 4)"] h0 h1 h2 h3 h4 h5
    unfolding list_all_iff by blast
qed

text \<open>
  C6. From densities that are not negative, with a time step that is not negative and
  a positive grid spacing (a configuration with \<open>xmin < xmax\<close> and \<open>tf \<ge> 0\<close>), if the
  CFL condition \<open>Dt max(|a|) / Dx \<le> 1\<close> holds for the two velocities of every
  iteration, then both densities are not negative in every state of the run.
  The run is one whose divisions are by numbers other than 0 (\<open>representable\<close>).
\<close>

theorem nonnegativity_under_cfl:
  assumes "parameters cfg = Inr d" and "xmin cfg < xmax cfg" and "0 \<le> tf cfg"
    and "nonneg (rho1 (initial cfg d))" and "nonneg (rho2 (initial cfg d))"
    and "\<forall>s \<in> set (butlast (run_states cfg d)).
           cfl (Dt d) (Dx d) (a1 (velocities (beta cfg) s))
           \<and> cfl (Dt d) (Dx d) (a2 (velocities (beta cfg) s))"
    and "representable cfg d"
  shows "\<forall>s \<in> set (run_states cfg d). nonneg (rho1 s) \<and> nonneg (rho2 s)"
proof
  fix s assume s: "s \<in> set (run_states cfg d)"
  have sh0: "shaped (nat (Nx cfg)) (initial cfg d)"
    using assms(1) by (rule shaped_initial)
  have steps: "0 \<le> Dt d" "0 < Dx d"
    using parameters_steps [OF assms(1,2,3)] by simp_all
  show "nonneg (rho1 s) \<and> nonneg (rho2 s)"
    using trajectory_nonneg [OF sh0 steps assms(4,5)] assms(6) s
    unfolding run_states_def velocity1_def velocity2_def by blast
qed

theorem nonnegativity_under_cfl_witness:
  "parameters example_config = Inr example_discretisation
   \<and> representable example_config example_discretisation
   \<and> xmin example_config < xmax example_config \<and> 0 \<le> tf example_config
   \<and> nonneg (rho1 (initial example_config example_discretisation))
   \<and> nonneg (rho2 (initial example_config example_discretisation))
   \<and> list_all
        (\<lambda>s. cfl (Dt example_discretisation) (Dx example_discretisation)
               (a1 (velocities (beta example_config) s))
             \<and> cfl (Dt example_discretisation) (Dx example_discretisation)
               (a2 (velocities (beta example_config) s)))
        (butlast (run_states example_config example_discretisation))
   \<and> list_all (\<lambda>s. nonneg (rho1 s) \<and> nonneg (rho2 s))
        (run_states example_config example_discretisation)"
proof -
  have h1: "parameters example_config = Inr example_discretisation"
    by (rule example_parameters)
  have h0: "representable example_config example_discretisation"
    by (rule example_representable)
  have h2: "xmin example_config < xmax example_config" "0 \<le> tf example_config"
    by (simp_all add: example_config_def)
  have h3: "nonneg (rho1 (initial example_config example_discretisation))"
    "nonneg (rho2 (initial example_config example_discretisation))"
    by (simp_all add: example_initial example_state0_def nonneg_def)
  have v: "\<And>s. a1 (velocities (3 / 10) s) = velocity1 (3 / 10) s"
    "\<And>s. a2 (velocities (3 / 10) s) = velocity2 (3 / 10) s"
    by (simp_all add: velocity1_def velocity2_def)
  have h4: "\<forall>s \<in> set (butlast (run_states example_config example_discretisation)).
           cfl (Dt example_discretisation) (Dx example_discretisation)
             (a1 (velocities (beta example_config) s))
           \<and> cfl (Dt example_discretisation) (Dx example_discretisation)
             (a2 (velocities (beta example_config) s))"
    unfolding example_run
    by (simp add: example_config_def example_discretisation_def v example_velocities cfl_def)
  show ?thesis
    using nonnegativity_under_cfl [OF h1 h2 h3 h4 h0] h0 h1 h2 h3 h4 unfolding list_all_iff by blast
qed

subsection \<open>Counting iterations\<close>

lemma fold_step_n:
  "n (fold (step \<Delta>t \<Delta>x b) (enumerate k ts) st) =
     (if ts = [] then n st else Some (k + length ts - 1))"
proof (induction ts arbitrary: k st)
  case Nil
  then show ?case by simp
next
  case (Cons x xs)
  show ?case
    by (cases "xs = []") (simp_all add: Cons.IH step_frame)
qed

lemma steps_done_loop:
  "steps_done (loop \<Delta>t \<Delta>x b ts (initial cfg d)) = length ts"
  by (cases "ts = []") (auto simp: steps_done_def loop_def fold_step_n initial_def)

lemma run_steps:
  assumes "parameters cfg = Inr d"
  shows "steps_executed cfg = nat (Nt cfg)"
    and "map_sum id n (run cfg) = Inr (Some (nat (Nt cfg) - 1))"
proof -
  have len: "length (T d) = nat (Nt cfg)" and N: "2 \<le> Nt cfg"
    using parameters_Inr [OF assms] by simp_all
  show "steps_executed cfg = nat (Nt cfg)"
    by (simp add: steps_executed_def run_def assms steps_done_loop len)
  have "T d \<noteq> []" using len N by auto
  then show "map_sum id n (run cfg) = Inr (Some (nat (Nt cfg) - 1))"
    by (simp add: run_def assms loop_def fold_step_n len)
qed

lemma parameters_total:
  assumes "2 \<le> Nx cfg" "2 \<le> Nt cfg"
  obtains d where "parameters cfg = Inr d"
  using parameters_ok [OF assms] by (cases "parameters cfg") auto

lemma run_fails:
  assumes "Nx cfg < 2 \<or> Nt cfg < 2"
  shows "isl (run cfg)" and "steps_executed cfg = 0"
proof -
  obtain e where "parameters cfg = Inl e"
    using parameters_Inl [OF assms] by (cases "parameters cfg") auto
  then show "isl (run cfg)" and "steps_executed cfg = 0"
    by (simp_all add: run_def steps_executed_def)
qed

section \<open>Claims about configuration errors\<close>

text \<open>
  C10, as the claim states it, fails: the notebook checks nothing, and a negative time
  horizon or a grid with \<open>xmin > xmax\<close> runs all its iterations. The notebook's
  configuration with \<open>tf = - 2\<close>, and the one with the grid bounds exchanged, make
  1000 iterations each.
\<close>

theorem invalid_configuration_runs:
  "tf (notebook_config \<lparr> tf := - 2 \<rparr>) < 0
   \<and> steps_executed (notebook_config \<lparr> tf := - 2 \<rparr>) = 1000
   \<and> xmin (notebook_config \<lparr> xmin := 1, xmax := - 1 \<rparr>)
       \<ge> xmax (notebook_config \<lparr> xmin := 1, xmax := - 1 \<rparr>)
   \<and> steps_executed (notebook_config \<lparr> xmin := 1, xmax := - 1 \<rparr>) = 1000"
proof -
  obtain d where d: "parameters (notebook_config \<lparr> tf := - 2 \<rparr>) = Inr d"
    by (rule parameters_total [of "notebook_config \<lparr> tf := - 2 \<rparr>"])
      (simp_all add: notebook_config_def)
  obtain d' where d': "parameters (notebook_config \<lparr> xmin := 1, xmax := - 1 \<rparr>) = Inr d'"
    by (rule parameters_total [of "notebook_config \<lparr> xmin := 1, xmax := - 1 \<rparr>"])
      (simp_all add: notebook_config_def)
  show ?thesis
    using run_steps(1) [OF d] run_steps(1) [OF d']
    by (simp add: notebook_config_def)
qed

text \<open>
  C10, amended. A grid or a time discretisation of fewer than two points, so every
  \<open>Nx\<close> or \<open>Nt\<close> that is not positive, makes the parameter cell raise: ValueError from
  \<open>linspace\<close> for a negative count, IndexError from \<open>grid[1]\<close> or \<open>T[1]\<close> otherwise. The
  run ends in that error and makes no iteration. Nothing else is checked: with
  \<open>Nx \<ge> 2\<close> and \<open>Nt \<ge> 2\<close> the run makes its \<open>Nt\<close> iterations whatever the grid
  bounds and the final time are.
\<close>

theorem small_discretisation_fails_fast:
  "(Nx cfg \<le> 0 \<or> Nt cfg \<le> 0 \<longrightarrow> isl (run cfg) \<and> steps_executed cfg = 0)
   \<and> (Nx cfg < 2 \<or> Nt cfg < 2 \<longrightarrow> isl (run cfg) \<and> steps_executed cfg = 0)
   \<and> (Nx cfg < 0 \<longrightarrow> run cfg = Inl ValueError)
   \<and> (0 \<le> Nx cfg \<and> Nx cfg < 2 \<longrightarrow> run cfg = Inl IndexError)
   \<and> (2 \<le> Nx cfg \<and> 2 \<le> Nt cfg \<longrightarrow>
        \<not> isl (run cfg) \<and> steps_executed cfg = nat (Nt cfg))"
proof -
  have a: "isl (run cfg) \<and> steps_executed cfg = 0" if "Nx cfg < 2 \<or> Nt cfg < 2"
    using run_fails [OF that] by simp
  have b: "run cfg = Inl ValueError" if "Nx cfg < 0"
    using that by (simp add: run_def parameters_def linspace_def)
  have c: "run cfg = Inl IndexError" if "0 \<le> Nx cfg" "Nx cfg < 2"
    using that by (simp add: run_def parameters_def linspace_def getitem_map_upt)
  have d: "\<not> isl (run cfg) \<and> steps_executed cfg = nat (Nt cfg)"
    if big: "2 \<le> Nx cfg" "2 \<le> Nt cfg"
  proof -
    obtain d where d: "parameters cfg = Inr d"
      using parameters_total [OF big] by blast
    show ?thesis
      using run_steps(1) [OF d] by (simp add: run_def d)
  qed
  have "Nx cfg < 2 \<or> Nt cfg < 2" if "Nx cfg \<le> 0 \<or> Nt cfg \<le> 0"
    using that by auto
  then show ?thesis
    using a b c d by blast
qed

theorem small_discretisation_fails_fast_witness:
  "Nx (notebook_config \<lparr> Nx := 0 \<rparr>) \<le> 0
   \<and> isl (run (notebook_config \<lparr> Nx := 0 \<rparr>))
   \<and> steps_executed (notebook_config \<lparr> Nx := 0 \<rparr>) = 0
   \<and> run (notebook_config \<lparr> Nx := 0 \<rparr>) = Inl IndexError
   \<and> Nx (notebook_config \<lparr> Nx := - 1 \<rparr>) < 0
   \<and> run (notebook_config \<lparr> Nx := - 1 \<rparr>) = Inl ValueError
   \<and> Nt (notebook_config \<lparr> Nt := 1 \<rparr>) < 2
   \<and> steps_executed (notebook_config \<lparr> Nt := 1 \<rparr>) = 0
   \<and> 2 \<le> Nx notebook_config \<and> 2 \<le> Nt notebook_config
   \<and> steps_executed notebook_config = 1000"
  using small_discretisation_fails_fast [of "notebook_config \<lparr> Nx := 0 \<rparr>"]
    small_discretisation_fails_fast [of "notebook_config \<lparr> Nx := - 1 \<rparr>"]
    small_discretisation_fails_fast [of "notebook_config \<lparr> Nt := 1 \<rparr>"]
    small_discretisation_fails_fast [of notebook_config]
  by (simp add: notebook_config_def)

section \<open>Properties of the particle model\<close>

subsection \<open>Counting iterations\<close>

lemma particle_step_counters:
  "cnt (particle_step pc nk p) = Suc (cnt p)"
  "loop_n (particle_step pc nk p) = Some (fst nk)"
  by (simp_all add: particle_step_def save_def euler_def particle_velocities_def Let_def
        split_beta)

lemma fold_particle_step_cnt:
  "cnt (fold (particle_step pc) nks p) = cnt p + length nks"
  by (induction nks arbitrary: p) (simp_all add: particle_step_counters)

lemma fold_particle_step_n:
  "loop_n (fold (particle_step pc) (enumerate k ts) p) =
     (if ts = [] then loop_n p else Some (k + length ts - 1))"
proof (induction ts arbitrary: k p)
  case Nil
  then show ?case by simp
next
  case (Cons x xs)
  show ?case
    by (cases "xs = []") (simp_all add: Cons.IH particle_step_counters)
qed

lemma length_linspace:
  "linspace a b m = Inr ts \<Longrightarrow> length ts = nat m"
  by (auto simp: linspace_def split: if_splits)

lemma notebook_nT: "nT notebook_particle_config = Inr 1000"
  by (simp add: nT_def notebook_particle_config_def py_int_def)

lemma notebook_particle_times:
  "\<exists>ts. particle_times notebook_particle_config = Inr ts \<and> length ts = 1001"
  by (simp add: particle_times_def notebook_nT linspace_def)

subsection \<open>Matrices as tables\<close>

lemma length_table [simp]: "length (table Na Nb f) = Na"
  by (simp add: table_def)

lemma nth_table_row: "i < Na \<Longrightarrow> table Na Nb f ! i = map (f i) [0..<Nb]"
  by (simp add: table_def)

lemma nth_table [simp]: "i < Na \<Longrightarrow> j < Nb \<Longrightarrow> table Na Nb f ! i ! j = f i j"
  by (simp add: table_def)

lemma length_table_row [simp]: "i < Na \<Longrightarrow> length (table Na Nb f ! i) = Nb"
  by (simp add: table_def)

lemma mmap_table: "mmap g (table Na Nb f) = table Na Nb (\<lambda>i j. g (f i j))"
  by (simp add: mmap_def table_def)

lemma madd_table:
  "madd (table Na Nb f) (table Na Nb g) = table Na Nb (\<lambda>i j. f i j + g i j)"
  by (simp add: madd_def vadd_def table_def map2_map_map)

lemma msub_table:
  "msub (table Na Nb f) (table Na Nb g) = table Na Nb (\<lambda>i j. f i j - g i j)"
  by (simp add: msub_def vsub_def table_def map2_map_map)

lemma mmul_table:
  "mmul (table Na Nb f) (table Na Nb g) = table Na Nb (\<lambda>i j. f i j * g i j)"
  by (simp add: mmul_def vmul_def table_def map2_map_map)

lemma mdiv_table:
  "mdiv (table Na Nb f) (table Na Nb g) = table Na Nb (\<lambda>i j. f i j / g i j)"
  by (simp add: mdiv_def table_def map2_map_map)

lemma repmat_col_table: "repmat_col x k = table (length x) k (\<lambda>i j. x ! i)"
  unfolding repmat_col_def table_def
  by (rule nth_equalityI) (simp_all add: map_replicate_const)

lemma repmat_row_table: "repmat_row x k = table k (length x) (\<lambda>i j. x ! j)"
  unfolding repmat_row_def table_def
  by (rule nth_equalityI) (simp_all add: map_nth)

lemma row_sums_table: "row_sums (table Na Nb f) = map (\<lambda>i. \<Sum>j<Nb. f i j) [0..<Na]"
  by (simp add: row_sums_def table_def interv_sum_list_conv_sum_set_nat atLeast0LessThan comp_def)

lemma transpose_table:
  assumes "0 < Na"
  shows "transpose (table Na Nb f) = table Nb Na (\<lambda>j i. f i j)"
proof -
  have "transpose (table Na Nb f) =
          map (\<lambda>i. map (\<lambda>j. table Na Nb f ! j ! i) [0..<length (table Na Nb f)]) [0..<Nb]"
    using assms by (intro transpose_rectangle) (auto simp: table_def)
  then show ?thesis
    by (simp add: table_def)
qed

subsection \<open>Pairwise interactions\<close>

text \<open>The substitution leaves a positive distance and replaces 0 by 1.\<close>

lemma avoid_zero_entry:
  "0 \<le> r \<Longrightarrow> r * indicator01 (r > 0) + 1 * indicator01 (r = 0) = (if r = 0 then 1 else r)"
  by (simp add: indicator01_def)

lemma sqrt_sum_squares_zero: "sqrt (u ^ 2 + v ^ 2) = 0 \<longleftrightarrow> u = 0 \<and> v = 0"
  by (simp add: sum_power2_eq_zero_iff)

lemma divisor_entry:
  "sqrt (u ^ 2 + v ^ 2) * indicator01 (sqrt (u ^ 2 + v ^ 2) > 0)
     + 1 * indicator01 (sqrt (u ^ 2 + v ^ 2) = 0) = divisor u v"
  unfolding divisor_def by (rule avoid_zero_entry) simp

lemma interactions_table:
  assumes "length xa = Na" "length ya = Na" "length xb = Nb" "length yb = Nb"
  shows "interactions sp Na Nb xa ya xb yb =
     (table Na Nb (\<lambda>i j. divisor (xa ! i - xb ! j) (ya ! i - yb ! j)),
      table Na Nb (\<lambda>i j. (xa ! i - xb ! j)
         * sp (divisor (xa ! i - xb ! j) (ya ! i - yb ! j))
         / divisor (xa ! i - xb ! j) (ya ! i - yb ! j)),
      table Na Nb (\<lambda>i j. (ya ! i - yb ! j)
         * sp (divisor (xa ! i - xb ! j) (ya ! i - yb ! j))
         / divisor (xa ! i - xb ! j) (ya ! i - yb ! j)))"
proof -
  have x: "msub (repmat_col xa Nb) (repmat_row xb Na) = table Na Nb (\<lambda>i j. xa ! i - xb ! j)"
    using assms by (simp add: repmat_col_table repmat_row_table msub_table)
  have y: "msub (repmat_col ya Nb) (repmat_row yb Na) = table Na Nb (\<lambda>i j. ya ! i - yb ! j)"
    using assms by (simp add: repmat_col_table repmat_row_table msub_table)
  have nrm: "avoid_zero (distances (table Na Nb (\<lambda>i j. xa ! i - xb ! j))
                 (table Na Nb (\<lambda>i j. ya ! i - yb ! j)))
      = table Na Nb (\<lambda>i j. divisor (xa ! i - xb ! j) (ya ! i - yb ! j))"
    by (simp only: avoid_zero_def distances_def mmap_table madd_table divisor_entry)
  show ?thesis
    unfolding interactions_def Let_def x y nrm
    by (simp add: mmap_table mmul_table mdiv_table)
qed


lemma grad_code:
  "grad sp (u, v) = (u * sp (divisor u v) / divisor u v, v * sp (divisor u v) / divisor u v)"
  by (auto simp: grad_def divisor_def Let_def sum_power2_eq_zero_iff)

lemma grad_odd: "grad sp (- u, - v) = (- fst (grad sp (u, v)), - snd (grad sp (u, v)))"
  by (simp add: grad_def Let_def)


subsection \<open>Velocities of the particles\<close>

lemma length_sdiv [simp]: "length (sdiv xs k) = length xs"
  by (simp add: sdiv_def)

lemma nth_sdiv [simp]: "i < length xs \<Longrightarrow> sdiv xs k ! i = xs ! i / real k"
  by (simp add: sdiv_def)

lemma terms_table:
  assumes "populations pc p"
  shows "predator_terms pc p =
     (table (N1 pc) (N1 pc) (\<lambda>i k. divisor (x1 p ! i - x1 p ! k) (y1 p ! i - y1 p ! k)),
      table (N1 pc) (N1 pc)
        (\<lambda>i k. fst (grad (s1prime pc) (x1 p ! i - x1 p ! k, y1 p ! i - y1 p ! k))),
      table (N1 pc) (N1 pc)
        (\<lambda>i k. snd (grad (s1prime pc) (x1 p ! i - x1 p ! k, y1 p ! i - y1 p ! k))))"
    and "cross_terms pc p =
     (table (N1 pc) (N2 pc) (\<lambda>i j. divisor (x1 p ! i - x2 p ! j) (y1 p ! i - y2 p ! j)),
      table (N1 pc) (N2 pc)
        (\<lambda>i j. fst (grad (kprime pc) (x1 p ! i - x2 p ! j, y1 p ! i - y2 p ! j))),
      table (N1 pc) (N2 pc)
        (\<lambda>i j. snd (grad (kprime pc) (x1 p ! i - x2 p ! j, y1 p ! i - y2 p ! j))))"
    and "prey_terms pc p =
     (table (N2 pc) (N2 pc) (\<lambda>j h. divisor (x2 p ! j - x2 p ! h) (y2 p ! j - y2 p ! h)),
      table (N2 pc) (N2 pc)
        (\<lambda>j h. fst (grad (s2prime pc) (x2 p ! j - x2 p ! h, y2 p ! j - y2 p ! h))),
      table (N2 pc) (N2 pc)
        (\<lambda>j h. snd (grad (s2prime pc) (x2 p ! j - x2 p ! h, y2 p ! j - y2 p ! h))))"
  using assms
  by (simp_all add: populations_def predator_terms_def cross_terms_def prey_terms_def
        interactions_table grad_code)

lemma particle_velocities_eq:
  assumes "populations pc p"
  shows "dx1 (particle_velocities pc p) =
      map (\<lambda>i. - (\<Sum>k<N1 pc. fst (grad (s1prime pc) (x1 p ! i - x1 p ! k, y1 p ! i - y1 p ! k)))
                 / real (N1 pc)
               - (\<Sum>j<N2 pc. fst (grad (kprime pc) (x1 p ! i - x2 p ! j, y1 p ! i - y2 p ! j)))
                 / real (N2 pc)) [0..<N1 pc]"
    and "dy1 (particle_velocities pc p) =
      map (\<lambda>i. - (\<Sum>k<N1 pc. snd (grad (s1prime pc) (x1 p ! i - x1 p ! k, y1 p ! i - y1 p ! k)))
                 / real (N1 pc)
               - (\<Sum>j<N2 pc. snd (grad (kprime pc) (x1 p ! i - x2 p ! j, y1 p ! i - y2 p ! j)))
                 / real (N2 pc)) [0..<N1 pc]"
    and "dx2 (particle_velocities pc p) =
      map (\<lambda>j. - (\<Sum>h<N2 pc. fst (grad (s2prime pc) (x2 p ! j - x2 p ! h, y2 p ! j - y2 p ! h)))
                 / real (N2 pc)
               - alpha pc
                 * (\<Sum>i<N1 pc. fst (grad (kprime pc) (x1 p ! i - x2 p ! j, y1 p ! i - y2 p ! j)))
                 / real (N1 pc)) [0..<N2 pc]"
    and "dy2 (particle_velocities pc p) =
      map (\<lambda>j. - (\<Sum>h<N2 pc. snd (grad (s2prime pc) (x2 p ! j - x2 p ! h, y2 p ! j - y2 p ! h)))
                 / real (N2 pc)
               - alpha pc
                 * (\<Sum>i<N1 pc. snd (grad (kprime pc) (x1 p ! i - x2 p ! j, y1 p ! i - y2 p ! j)))
                 / real (N1 pc)) [0..<N2 pc]"
proof -
  have N: "0 < N1 pc" using assms by (simp add: populations_def)
  show "dx1 (particle_velocities pc p) =
      map (\<lambda>i. - (\<Sum>k<N1 pc. fst (grad (s1prime pc) (x1 p ! i - x1 p ! k, y1 p ! i - y1 p ! k)))
                 / real (N1 pc)
               - (\<Sum>j<N2 pc. fst (grad (kprime pc) (x1 p ! i - x2 p ! j, y1 p ! i - y2 p ! j)))
                 / real (N2 pc)) [0..<N1 pc]"
    unfolding particle_velocities_def terms_table [OF assms]
    by (simp add: row_sums_table vsub_def sdiv_def vneg_def map2_map_map comp_def)
  show "dy1 (particle_velocities pc p) =
      map (\<lambda>i. - (\<Sum>k<N1 pc. snd (grad (s1prime pc) (x1 p ! i - x1 p ! k, y1 p ! i - y1 p ! k)))
                 / real (N1 pc)
               - (\<Sum>j<N2 pc. snd (grad (kprime pc) (x1 p ! i - x2 p ! j, y1 p ! i - y2 p ! j)))
                 / real (N2 pc)) [0..<N1 pc]"
    unfolding particle_velocities_def terms_table [OF assms]
    by (simp add: row_sums_table vsub_def sdiv_def vneg_def map2_map_map comp_def)
  show "dx2 (particle_velocities pc p) =
      map (\<lambda>j. - (\<Sum>h<N2 pc. fst (grad (s2prime pc) (x2 p ! j - x2 p ! h, y2 p ! j - y2 p ! h)))
                 / real (N2 pc)
               - alpha pc
                 * (\<Sum>i<N1 pc. fst (grad (kprime pc) (x1 p ! i - x2 p ! j, y1 p ! i - y2 p ! j)))
                 / real (N1 pc)) [0..<N2 pc]"
    unfolding particle_velocities_def terms_table [OF assms]
    by (simp add: row_sums_table transpose_table [OF N] vsub_def sdiv_def vneg_def smul_def
          map2_map_map comp_def)
  show "dy2 (particle_velocities pc p) =
      map (\<lambda>j. - (\<Sum>h<N2 pc. snd (grad (s2prime pc) (x2 p ! j - x2 p ! h, y2 p ! j - y2 p ! h)))
                 / real (N2 pc)
               - alpha pc
                 * (\<Sum>i<N1 pc. snd (grad (kprime pc) (x1 p ! i - x2 p ! j, y1 p ! i - y2 p ! j)))
                 / real (N1 pc)) [0..<N2 pc]"
    unfolding particle_velocities_def terms_table [OF assms]
    by (simp add: row_sums_table transpose_table [OF N] vsub_def sdiv_def vneg_def smul_def
          map2_map_map comp_def)
qed


lemma example_populations: "populations example_particle_config example_particles"
  by (simp add: populations_def example_particle_config_def example_particles_def
        initial_particles_def notebook_particle_config_def)

subsection \<open>The interaction block on float64 values\<close>

text \<open>Results in the range of float64 stay finite; \<open>2 ^ 1024\<close> is out of range.\<close>

lemma round64_finite:
  assumes "\<bar>r\<bar> \<le> 2 ^ 1023"
  shows "round64 r = Finite r"
proof -
  have "(2::real) ^ 1024 = 2 * 2 ^ 1023" by simp
  moreover have "(2::real) ^ 970 < 2 ^ 1023" by (rule power_strict_increasing) simp_all
  ultimately have "2 ^ 1023 < (2 ^ 1024 - 2 ^ 970 :: real)" by simp
  then have "r < 2 ^ 1024 - 2 ^ 970" "- (2 ^ 1024 - 2 ^ 970) < r"
    using assms by linarith+
  then show ?thesis
    unfolding round64_def by simp
qed

lemma round64_small:
  assumes "\<bar>r\<bar> \<le> 25"
  shows "round64 r = Finite r"
proof -
  have "(2::real) ^ 5 \<le> 2 ^ 1023" by (rule power_increasing) simp_all
  then have "(25::real) \<le> 2 ^ 1023" by simp
  then show ?thesis
    using assms by (intro round64_finite) linarith
qed




lemma fsub_self: "fsub (Finite a) (Finite a) = Finite 0"
  by (simp add: fsub_def round64_small)


lemma kprime64_pos: "0 < r \<Longrightarrow> notebook_kprime64 (Finite r) = Finite 1"
  by (simp add: notebook_kprime64_def of_bool64_def round64_small)


text \<open>
  Away from the bounds the block on float64 values does what the block on the reals
  does: a pair at the same position has divisor 1 and contributes 0, and a prey at
  distance 5 gives the unit vector towards the predator.
\<close>

lemma interactions64_coincident:
  "interactions64 notebook_kprime64 1 1 [Finite a] [Finite b] [Finite a] [Finite b]
     = ([[Finite 1]], [[Finite 0]], [[Finite 0]])"
  by (simp add: interactions64_def mzip64_def fsub_self of_bool64_def round64_small
        kprime64_pos Let_def)

lemma interactions64_apart:
  "interactions64 notebook_kprime64 1 1 [Finite 3] [Finite 4] [Finite 0] [Finite 0]
     = ([[Finite 5]], [[Finite (3 / 5)]], [[Finite (4 / 5)]])"
proof -
  have "sqrt 25 = 5"
    using real_sqrt_abs [of 5] by simp
  then show ?thesis
    by (simp add: interactions64_def mzip64_def fsub_def of_bool64_def round64_small
          kprime64_pos Let_def)
qed

section \<open>Claims about the particle model\<close>




lemma grad_flip:
  "fst (grad sp (a - b, c - d)) = - fst (grad sp (b - a, d - c))"
  "snd (grad sp (a - b, c - d)) = - snd (grad sp (b - a, d - c))"
  using grad_odd [of sp "b - a" "d - c"] by simp_all

lemma cross_sum_flip:
  "(\<Sum>i<N. fst (grad sp (xa ! i - xb, ya ! i - yb))) =
     - (\<Sum>i<N. fst (grad sp (xb - xa ! i, yb - ya ! i)))"
  "(\<Sum>i<N. snd (grad sp (xa ! i - xb, ya ! i - yb))) =
     - (\<Sum>i<N. snd (grad sp (xb - xa ! i, yb - ya ! i)))"
  by (simp_all add: grad_flip [of sp _ xb] sum_negf)

lemma particle_velocities_loop_vars:
  "particle_velocities pc (p \<lparr> loop_n := a, loop_k := b \<rparr>) =
     (particle_velocities pc p) \<lparr> loop_n := a, loop_k := b \<rparr>"
  by (simp add: particle_velocities_def predator_terms_def cross_terms_def prey_terms_def
        split_beta)

lemma particle_step_positions:
  "x1 (particle_step pc nk p) = vadd (x1 p) (smul (dt pc) (dx1 (particle_velocities pc p)))"
  "y1 (particle_step pc nk p) = vadd (y1 p) (smul (dt pc) (dy1 (particle_velocities pc p)))"
  "x2 (particle_step pc nk p) = vadd (x2 p) (smul (dt pc) (dx2 (particle_velocities pc p)))"
  "y2 (particle_step pc nk p) = vadd (y2 p) (smul (dt pc) (dy2 (particle_velocities pc p)))"
  by (simp_all add: particle_step_def save_def Let_def euler_def particle_velocities_loop_vars)
     (simp_all add: particle_velocities_def split_beta)

text \<open>
  C5. The velocity of predator \<open>i\<close> is minus the sum over the predators of the gradient
  of \<open>S1\<close> at \<open>x_i - x_k\<close>, divided by \<open>N1\<close>, minus the sum over the prey of the
  gradient of \<open>K\<close> at \<open>x_i - y_j\<close>, divided by \<open>N2\<close>. The velocity of prey \<open>j\<close> is minus
  the sum over the prey of the gradient of \<open>S2\<close> at \<open>y_j - y_h\<close>, divided by \<open>N2\<close>,
  plus \<open>alpha\<close> times the sum over the predators of the gradient of \<open>K\<close> at
  \<open>y_j - x_i\<close>, divided by \<open>N1\<close>. The code's term for the prey,
  \<open>alpha * sum(dxK.T, axis=1)/N1\<close> with \<open>dxK\<close> built from the differences
  \<open>x_i - y_j\<close>, is subtracted, and it is the opposite of that last term. These
  velocities are the ones the Euler step adds, times \<open>dt\<close>, to the positions.
\<close>

theorem mean_field_velocities:
  assumes "populations pc p"
  shows "(\<forall>i<N1 pc.
            dx1 (particle_velocities pc p) ! i =
              - (\<Sum>k<N1 pc. fst (grad (s1prime pc)
                    (minus_point (point (x1 p) (y1 p) i) (point (x1 p) (y1 p) k)))) / real (N1 pc)
              - (\<Sum>j<N2 pc. fst (grad (kprime pc)
                    (minus_point (point (x1 p) (y1 p) i) (point (x2 p) (y2 p) j)))) / real (N2 pc)
            \<and> dy1 (particle_velocities pc p) ! i =
              - (\<Sum>k<N1 pc. snd (grad (s1prime pc)
                    (minus_point (point (x1 p) (y1 p) i) (point (x1 p) (y1 p) k)))) / real (N1 pc)
              - (\<Sum>j<N2 pc. snd (grad (kprime pc)
                    (minus_point (point (x1 p) (y1 p) i) (point (x2 p) (y2 p) j)))) / real (N2 pc))
       \<and> (\<forall>j<N2 pc.
            dx2 (particle_velocities pc p) ! j =
              - (\<Sum>h<N2 pc. fst (grad (s2prime pc)
                    (minus_point (point (x2 p) (y2 p) j) (point (x2 p) (y2 p) h)))) / real (N2 pc)
              + alpha pc * (\<Sum>i<N1 pc. fst (grad (kprime pc)
                    (minus_point (point (x2 p) (y2 p) j) (point (x1 p) (y1 p) i)))) / real (N1 pc)
            \<and> dy2 (particle_velocities pc p) ! j =
              - (\<Sum>h<N2 pc. snd (grad (s2prime pc)
                    (minus_point (point (x2 p) (y2 p) j) (point (x2 p) (y2 p) h)))) / real (N2 pc)
              + alpha pc * (\<Sum>i<N1 pc. snd (grad (kprime pc)
                    (minus_point (point (x2 p) (y2 p) j) (point (x1 p) (y1 p) i)))) / real (N1 pc)
            \<and> - (sdiv (smul (alpha pc) (row_sums (transpose (fst (snd (cross_terms pc p))))))
                   (N1 pc) ! j) =
              alpha pc * (\<Sum>i<N1 pc. fst (grad (kprime pc)
                    (minus_point (point (x2 p) (y2 p) j) (point (x1 p) (y1 p) i)))) / real (N1 pc)
            \<and> (\<forall>i<N1 pc. fst (snd (cross_terms pc p)) ! i ! j =
                  fst (grad (kprime pc)
                    (minus_point (point (x1 p) (y1 p) i) (point (x2 p) (y2 p) j)))))
       \<and> length (dx1 (particle_velocities pc p)) = N1 pc
       \<and> length (dy1 (particle_velocities pc p)) = N1 pc
       \<and> length (dx2 (particle_velocities pc p)) = N2 pc
       \<and> length (dy2 (particle_velocities pc p)) = N2 pc
       \<and> x1 (particle_step pc nk p) = vadd (x1 p) (smul (dt pc) (dx1 (particle_velocities pc p)))
       \<and> y1 (particle_step pc nk p) = vadd (y1 p) (smul (dt pc) (dy1 (particle_velocities pc p)))
       \<and> x2 (particle_step pc nk p) = vadd (x2 p) (smul (dt pc) (dx2 (particle_velocities pc p)))
       \<and> y2 (particle_step pc nk p) = vadd (y2 p) (smul (dt pc) (dy2 (particle_velocities pc p)))"
proof -
  have N: "0 < N1 pc" using assms by (simp add: populations_def)
  have predators: "dx1 (particle_velocities pc p) ! i =
              - (\<Sum>k<N1 pc. fst (grad (s1prime pc)
                    (minus_point (point (x1 p) (y1 p) i) (point (x1 p) (y1 p) k)))) / real (N1 pc)
              - (\<Sum>j<N2 pc. fst (grad (kprime pc)
                    (minus_point (point (x1 p) (y1 p) i) (point (x2 p) (y2 p) j)))) / real (N2 pc)
            \<and> dy1 (particle_velocities pc p) ! i =
              - (\<Sum>k<N1 pc. snd (grad (s1prime pc)
                    (minus_point (point (x1 p) (y1 p) i) (point (x1 p) (y1 p) k)))) / real (N1 pc)
              - (\<Sum>j<N2 pc. snd (grad (kprime pc)
                    (minus_point (point (x1 p) (y1 p) i) (point (x2 p) (y2 p) j)))) / real (N2 pc)"
    if "i < N1 pc" for i
    using that by (simp add: particle_velocities_eq [OF assms] point_def minus_point_def)
  have prey: "dx2 (particle_velocities pc p) ! j =
              - (\<Sum>h<N2 pc. fst (grad (s2prime pc)
                    (minus_point (point (x2 p) (y2 p) j) (point (x2 p) (y2 p) h)))) / real (N2 pc)
              + alpha pc * (\<Sum>i<N1 pc. fst (grad (kprime pc)
                    (minus_point (point (x2 p) (y2 p) j) (point (x1 p) (y1 p) i)))) / real (N1 pc)
            \<and> dy2 (particle_velocities pc p) ! j =
              - (\<Sum>h<N2 pc. snd (grad (s2prime pc)
                    (minus_point (point (x2 p) (y2 p) j) (point (x2 p) (y2 p) h)))) / real (N2 pc)
              + alpha pc * (\<Sum>i<N1 pc. snd (grad (kprime pc)
                    (minus_point (point (x2 p) (y2 p) j) (point (x1 p) (y1 p) i)))) / real (N1 pc)"
    if "j < N2 pc" for j
    using that
    by (simp add: particle_velocities_eq [OF assms] point_def minus_point_def cross_sum_flip)
  have code: "- (sdiv (smul (alpha pc) (row_sums (transpose (fst (snd (cross_terms pc p))))))
                   (N1 pc) ! j) =
              alpha pc * (\<Sum>i<N1 pc. fst (grad (kprime pc)
                    (minus_point (point (x2 p) (y2 p) j) (point (x1 p) (y1 p) i)))) / real (N1 pc)"
    if "j < N2 pc" for j
    using that
    by (simp add: terms_table [OF assms] transpose_table [OF N] row_sums_table smul_def
          point_def minus_point_def cross_sum_flip)
  have entries: "fst (snd (cross_terms pc p)) ! i ! j =
                  fst (grad (kprime pc)
                    (minus_point (point (x1 p) (y1 p) i) (point (x2 p) (y2 p) j)))"
    if "i < N1 pc" "j < N2 pc" for i j
    using that by (simp add: terms_table [OF assms] point_def minus_point_def)
  have lens: "length (dx1 (particle_velocities pc p)) = N1 pc"
    "length (dy1 (particle_velocities pc p)) = N1 pc"
    "length (dx2 (particle_velocities pc p)) = N2 pc"
    "length (dy2 (particle_velocities pc p)) = N2 pc"
    by (simp_all add: particle_velocities_eq [OF assms])
  show ?thesis
    using predators prey code entries lens particle_step_positions [of pc nk p] by simp
qed

lemma sqrt_25: "sqrt 25 = 5"
  using real_sqrt_abs [of 5] by simp

theorem mean_field_velocities_witness:
  "populations example_particle_config example_particles
   \<and> (1::nat) < N2 example_particle_config
   \<and> dx2 (particle_velocities example_particle_config example_particles) ! 1 = 3 / 20"
proof -
  have h: "populations example_particle_config example_particles"
    by (rule example_populations)
  have j: "(1::nat) < N2 example_particle_config"
    by (simp add: example_particle_config_def)
  have two: "{..<2::nat} = {0, 1}"
    by auto
  have pos: "x1 example_particles = [0, 0]" "y1 example_particles = [0, 0]"
    "x2 example_particles = [0, 3]" "y2 example_particles = [0, 4]"
    "N1 example_particle_config = 2" "N2 example_particle_config = 2"
    "alpha example_particle_config = 3 / 10"
    "s2prime example_particle_config = notebook_s2prime"
    "kprime example_particle_config = notebook_kprime"
    by (simp_all add: example_particles_def initial_particles_def example_particle_config_def
          notebook_particle_config_def)
  have "dx2 (particle_velocities example_particle_config example_particles) ! 1 = 3 / 20"
    using mean_field_velocities [OF h, of "(0, 0)"]
    by (simp add: pos two point_def minus_point_def grad_def sqrt_25 notebook_s2prime_def
          notebook_kprime_def indicator01_def)
  then show ?thesis
    using h j by blast
qed

section \<open>Claims about zero interaction\<close>





















section \<open>Bounded kernels\<close>

text \<open>
  With derivatives of the potentials bounded by 1 in absolute value, as \<open>sgn\<close> is, the
  velocities are bounded by the masses. For a run that starts from normalised profiles
  and whose ratio \<open>Dt / Dx\<close> is small enough, the CFL condition then holds in every
  iteration by itself.
\<close>

lemma abs_weighted_sum_le:
  assumes "\<And>l. l < N \<Longrightarrow> \<bar>w l\<bar> \<le> 1" "\<And>l. l < N \<Longrightarrow> 0 \<le> v l"
  shows "\<bar>\<Sum>l<N. w l * v l\<bar> \<le> (\<Sum>l<N. (v l :: real))"
proof -
  have "\<bar>\<Sum>l<N. w l * v l\<bar> \<le> (\<Sum>l<N. \<bar>w l * v l\<bar>)"
    by (rule sum_abs)
  also have "\<dots> \<le> (\<Sum>l<N. v l)"
  proof (rule sum_mono)
    fix l assume "l \<in> {..<N}"
    then have l: "l < N" by simp
    have "\<bar>w l * v l\<bar> = \<bar>w l\<bar> * v l"
      using assms(2) [OF l] by (simp add: abs_mult)
    also have "\<dots> \<le> 1 * v l"
      using assms(1) [OF l] assms(2) [OF l] by (rule mult_right_mono)
    finally show "\<bar>w l * v l\<bar> \<le> v l" by simp
  qed
  finally show ?thesis .
qed

lemma bounded_kernel_nth:
  "bounded_kernel M \<Longrightarrow> i < length M \<Longrightarrow> l < length (M ! i) \<Longrightarrow> \<bar>M ! i ! l\<bar> \<le> 1"
  by (simp add: bounded_kernel_def list_all_length)

lemma bounded_kernel_matrix:
  "(\<And>x. \<bar>f x\<bar> \<le> 1) \<Longrightarrow> bounded_kernel (kernel_matrix f g)"
  by (simp add: bounded_kernel_def kernel_matrix_def list_all_iff)

lemma mass_sum: "length rho = N \<Longrightarrow> mass rho = (\<Sum>l<N. rho ! l)"
  by (auto simp: mass_def sum_list_sum_nth atLeast0LessThan)

lemma velocity_bound:
  assumes sh: "shaped N st" and i: "i < N"
    and k: "bounded_kernel (W1p st)" "bounded_kernel (W2p st)" "bounded_kernel (Kp st)"
    and pos: "nonneg (rho1 st)" "nonneg (rho2 st)"
  shows "\<bar>velocity1 b st ! i\<bar> \<le> mass (rho1 st) + mass (rho2 st)"
    and "\<bar>velocity2 b st ! i\<bar> \<le> mass (rho2 st) + \<bar>b\<bar> * mass (rho1 st)"
proof -
  have len: "length (rho1 st) = N" "length (rho2 st) = N"
    and rows: "length (W1p st) = N" "length (W2p st) = N" "length (Kp st) = N"
    and cols: "length (W1p st ! i) = N" "length (W2p st ! i) = N" "length (Kp st ! i) = N"
    using sh i by (simp_all add: shaped_def square_def square_nth)
  have r: "\<And>l. l < N \<Longrightarrow> 0 \<le> rho1 st ! l" "\<And>l. l < N \<Longrightarrow> 0 \<le> rho2 st ! l"
    using pos len by (simp_all add: nonneg_nth)
  have w: "\<And>l. l < N \<Longrightarrow> \<bar>W1p st ! i ! l\<bar> \<le> 1" "\<And>l. l < N \<Longrightarrow> \<bar>W2p st ! i ! l\<bar> \<le> 1"
    "\<And>l. l < N \<Longrightarrow> \<bar>Kp st ! i ! l\<bar> \<le> 1"
    using k i rows cols by (simp_all add: bounded_kernel_nth)
  have s1: "\<bar>\<Sum>l<N. W1p st ! i ! l * rho1 st ! l\<bar> \<le> mass (rho1 st)"
    and s2: "\<bar>\<Sum>l<N. Kp st ! i ! l * rho2 st ! l\<bar> \<le> mass (rho2 st)"
    and s3: "\<bar>\<Sum>l<N. W2p st ! i ! l * rho2 st ! l\<bar> \<le> mass (rho2 st)"
    and s4: "\<bar>\<Sum>l<N. Kp st ! i ! l * rho1 st ! l\<bar> \<le> mass (rho1 st)"
    unfolding mass_sum [OF len(1)] mass_sum [OF len(2)]
    by (rule abs_weighted_sum_le; simp add: w r)+
  show "\<bar>velocity1 b st ! i\<bar> \<le> mass (rho1 st) + mass (rho2 st)"
    unfolding velocity_nth(1) [OF sh i] using s1 s2 by linarith
  have "\<bar>b * (\<Sum>l<N. Kp st ! i ! l * rho1 st ! l)\<bar> \<le> \<bar>b\<bar> * mass (rho1 st)"
    unfolding abs_mult using s4 by (simp add: mult_left_mono)
  then show "\<bar>velocity2 b st ! i\<bar> \<le> mass (rho2 st) + \<bar>b\<bar> * mass (rho1 st)"
    unfolding velocity_nth(2) [OF sh i] using s3 by linarith
qed

lemma cflI:
  assumes "a \<noteq> []" "\<And>i. i < length a \<Longrightarrow> \<bar>a ! i\<bar> \<le> M"
    and "0 \<le> \<Delta>t" "0 < \<Delta>x" "\<Delta>t / \<Delta>x * M \<le> 1"
  shows "cfl \<Delta>t \<Delta>x a"
proof -
  have "Max (set (map abs a)) \<le> M"
    using assms(1,2) by (auto simp: in_set_conv_nth)
  moreover have "0 \<le> \<Delta>t / \<Delta>x" using assms(3,4) by simp
  ultimately have "\<Delta>t / \<Delta>x * Max (set (map abs a)) \<le> \<Delta>t / \<Delta>x * M"
    by (rule mult_left_mono)
  then show ?thesis
    using assms(5) by (simp add: cfl_def)
qed

lemma bounded_step:
  assumes sh: "shaped N st"
    and k: "bounded_kernel (W1p st)" "bounded_kernel (W2p st)" "bounded_kernel (Kp st)"
    and pos: "nonneg (rho1 st)" "nonneg (rho2 st)"
    and m: "mass (rho1 st) \<le> 1" "mass (rho2 st) \<le> 1"
    and c: "0 \<le> \<Delta>t" "0 < \<Delta>x" "\<Delta>t / \<Delta>x * 2 \<le> 1" "\<Delta>t / \<Delta>x * (1 + \<bar>b\<bar>) \<le> 1"
  shows "cfl \<Delta>t \<Delta>x (velocity1 b st)" and "cfl \<Delta>t \<Delta>x (velocity2 b st)"
    and "nonneg (rho1 (step \<Delta>t \<Delta>x b nt st))" and "nonneg (rho2 (step \<Delta>t \<Delta>x b nt st))"
    and "mass (rho1 (step \<Delta>t \<Delta>x b nt st)) \<le> 1" and "mass (rho2 (step \<Delta>t \<Delta>x b nt st)) \<le> 1"
proof -
  have N: "0 < N" and len: "length (rho1 st) = N" "length (rho2 st) = N"
    using sh by (simp_all add: shaped_def)
  have lv: "length (velocity1 b st) = N" "length (velocity2 b st) = N"
    using length_velocity [OF sh] by simp_all
  have ne: "velocity1 b st \<noteq> []" "velocity2 b st \<noteq> []"
    using lv N by auto
  have m0: "0 \<le> mass (rho1 st)"
    using pos(1) unfolding mass_def nonneg_def by (simp add: sum_list_nonneg list_all_iff)
  have b1: "\<bar>velocity1 b st ! i\<bar> \<le> 2" if "i < length (velocity1 b st)" for i
    using velocity_bound(1) [OF sh _ k pos, of i b] that lv m by simp
  have "\<bar>b\<bar> * mass (rho1 st) \<le> \<bar>b\<bar> * 1"
    using m(1) by (intro mult_left_mono) simp_all
  then have b2: "\<bar>velocity2 b st ! i\<bar> \<le> 1 + \<bar>b\<bar>" if "i < length (velocity2 b st)" for i
    using velocity_bound(2) [OF sh _ k pos, of i b] that lv m by simp
  show cfl1: "cfl \<Delta>t \<Delta>x (velocity1 b st)"
    using ne(1) b1 c(1,2,3) by (rule cflI)
  show cfl2: "cfl \<Delta>t \<Delta>x (velocity2 b st)"
    using ne(2) b2 c(1,2,4) by (rule cflI)
  show "nonneg (rho1 (step \<Delta>t \<Delta>x b nt st))"
    using step_nonneg(1) [OF sh c(1,2) cfl1 pos(1)] .
  show "nonneg (rho2 (step \<Delta>t \<Delta>x b nt st))"
    using step_nonneg(2) [OF sh c(1,2) cfl2 pos(2)] .
  have ends: "0 \<le> hd (rho1 st)" "0 \<le> last (rho1 st)" "0 \<le> hd (rho2 st)" "0 \<le> last (rho2 st)"
    unfolding shaped_hd_last [OF sh] using pos len N by (simp_all add: nonneg_nth)
  show "mass (rho1 (step \<Delta>t \<Delta>x b nt st)) \<le> 1"
    using step_mass_le(1) [OF sh c(1,2) ends(1,2), of b nt] m(1) by simp
  show "mass (rho2 (step \<Delta>t \<Delta>x b nt st)) \<le> 1"
    using step_mass_le(2) [OF sh c(1,2) ends(3,4), of b nt] m(2) by simp
qed

lemma bounded_trajectory:
  assumes c: "0 \<le> \<Delta>t" "0 < \<Delta>x" "\<Delta>t / \<Delta>x * 2 \<le> 1" "\<Delta>t / \<Delta>x * (1 + \<bar>b\<bar>) \<le> 1"
    and sh: "shaped N st"
    and k: "bounded_kernel (W1p st)" "bounded_kernel (W2p st)" "bounded_kernel (Kp st)"
    and pos: "nonneg (rho1 st)" "nonneg (rho2 st)"
    and m: "mass (rho1 st) \<le> 1" "mass (rho2 st) \<le> 1"
    and s: "s \<in> set (trajectory \<Delta>t \<Delta>x b nts st)"
  shows "nonneg (rho1 s) \<and> nonneg (rho2 s) \<and> mass (rho1 s) \<le> 1 \<and> mass (rho2 s) \<le> 1
       \<and> cfl \<Delta>t \<Delta>x (velocity1 b s) \<and> cfl \<Delta>t \<Delta>x (velocity2 b s)"
  using sh k pos m s
proof (induction nts arbitrary: st)
  case Nil
  then show ?case
    using bounded_step(1,2) [OF Nil.prems(1-8) c] by simp
next
  case (Cons nt nts)
  let ?st' = "step \<Delta>t \<Delta>x b nt st"
  note here = bounded_step [OF Cons.prems(1-8) c]
  from Cons.prems(9) show ?case
  proof (cases rule: trajectory_cases)
    case 1
    then show ?thesis using here(1,2) Cons.prems(5-8) by simp
  next
    case 2
    have k': "bounded_kernel (W1p ?st')" "bounded_kernel (W2p ?st')" "bounded_kernel (Kp ?st')"
      using Cons.prems(2-4) by (simp_all add: step_frame)
    show ?thesis
      using Cons.IH [OF shaped_step [OF Cons.prems(1)] k' here(3-6) 2] .
  qed
qed

lemma normalised_nonneg:
  assumes "\<And>x. 0 \<le> f x"
  shows "nonneg (normalised f g)"
proof -
  have "0 \<le> sum_list (map f g)"
    by (rule sum_list_nonneg) (use assms in auto)
  then show ?thesis
    using assms by (simp add: normalised_def Let_def nonneg_def list_all_iff)
qed

lemma sum_list_divide: "sum_list (map (\<lambda>x. x / c) xs) = sum_list xs / (c :: real)"
  by (induction xs) (simp_all add: add_divide_distrib)

lemma normalised_mass:
  assumes "sum_list (map f g) \<noteq> 0"
  shows "mass (normalised f g) = 1"
  unfolding normalised_def Let_def mass_def sum_list_divide using assms by simp

lemma bounded_run:
  assumes ok: "parameters cfg = Inr d" and rep: "representable cfg d"
    and order: "xmin cfg < xmax cfg" "0 \<le> tf cfg"
    and k: "\<And>x. \<bar>dxW1 cfg x\<bar> \<le> 1" "\<And>x. \<bar>dxW2 cfg x\<bar> \<le> 1" "\<And>x. \<bar>dxK cfg x\<bar> \<le> 1"
    and ini: "\<And>x. 0 \<le> rho1_ini cfg x" "\<And>x. 0 \<le> rho2_ini cfg x"
    and c: "Dt d / Dx d * 2 \<le> 1" "Dt d / Dx d * (1 + \<bar>beta cfg\<bar>) \<le> 1"
    and s: "s \<in> set (run_states cfg d)"
  shows "nonneg (rho1 s) \<and> nonneg (rho2 s) \<and> mass (rho1 s) \<le> 1 \<and> mass (rho2 s) \<le> 1
       \<and> cfl (Dt d) (Dx d) (velocity1 (beta cfg) s) \<and> cfl (Dt d) (Dx d) (velocity2 (beta cfg) s)"
proof -
  have steps: "0 \<le> Dt d" "0 < Dx d"
    using parameters_steps [OF ok order] by simp_all
  have sh: "shaped (nat (Nx cfg)) (initial cfg d)"
    using ok by (rule shaped_initial)
  have ker: "bounded_kernel (W1p (initial cfg d))" "bounded_kernel (W2p (initial cfg d))"
    "bounded_kernel (Kp (initial cfg d))"
    using k by (simp_all add: initial_def bounded_kernel_matrix)
  have pos: "nonneg (rho1 (initial cfg d))" "nonneg (rho2 (initial cfg d))"
    using ini by (simp_all add: initial_def normalised_nonneg)
  have m: "mass (rho1 (initial cfg d)) \<le> 1" "mass (rho2 (initial cfg d)) \<le> 1"
    using rep by (simp_all add: initial_def representable_def normalised_mass)
  show ?thesis
    using bounded_trajectory [OF steps c sh ker pos m] s unfolding run_states_def by blast
qed

subsection \<open>The notebook as shipped\<close>

lemma notebook_parameters: "parameters notebook_config = Inr notebook_discretisation"
  by (simp add: parameters_def notebook_config_def notebook_discretisation_def linspace_def
        getitem_map_upt)

lemma notebook_representable: "representable notebook_config notebook_discretisation"
proof -
  let ?g = "grid notebook_discretisation"
  have g: "?g ! 2 = - 251 / 255" "?g ! 127 = - 1 / 255" "length ?g = 256"
    by (simp_all add: notebook_discretisation_def)
  have "?g ! 2 \<in> set ?g" "?g ! 127 \<in> set ?g"
    by (rule nth_mem, simp add: g(3))+
  then have in1: "rho1_ini notebook_config (?g ! 2) \<in> set (map (rho1_ini notebook_config) ?g)"
    and in2: "rho2_ini notebook_config (?g ! 127) \<in> set (map (rho2_ini notebook_config) ?g)"
    by simp_all
  have pos: "\<And>x. 0 \<le> rho1_ini notebook_config x" "\<And>x. 0 \<le> rho2_ini notebook_config x"
    by (simp_all add: notebook_config_def indicator01_def)
  have v: "rho1_ini notebook_config (?g ! 2) = 1" "rho2_ini notebook_config (?g ! 127) = 1"
    by (simp_all add: g notebook_config_def indicator01_def)
  have "rho1_ini notebook_config (?g ! 2) \<le> sum_list (map (rho1_ini notebook_config) ?g)"
    by (rule member_le_sum_list [OF in1]) (use pos in auto)
  then have "1 \<le> sum_list (map (rho1_ini notebook_config) ?g)"
    by (simp add: v)
  moreover
  have "rho2_ini notebook_config (?g ! 127) \<le> sum_list (map (rho2_ini notebook_config) ?g)"
    by (rule member_le_sum_list [OF in2]) (use pos in auto)
  then have "1 \<le> sum_list (map (rho2_ini notebook_config) ?g)"
    by (simp add: v)
  ultimately show ?thesis
    by (simp add: representable_def notebook_discretisation_def)
qed

text \<open>
  In the run the notebook is shipped with, both densities are not negative and of sum
  at most 1 in every state, and the CFL condition holds in every iteration.
\<close>

lemma notebook_run:
  assumes "s \<in> set (run_states notebook_config notebook_discretisation)"
  shows "nonneg (rho1 s) \<and> nonneg (rho2 s) \<and> mass (rho1 s) \<le> 1 \<and> mass (rho2 s) \<le> 1
       \<and> cfl (Dt notebook_discretisation) (Dx notebook_discretisation)
           (velocity1 (beta notebook_config) s)
       \<and> cfl (Dt notebook_discretisation) (Dx notebook_discretisation)
           (velocity2 (beta notebook_config) s)"
proof (rule bounded_run [OF notebook_parameters notebook_representable _ _ _ _ _ _ _ _ _ assms])
  show "xmin notebook_config < xmax notebook_config" "0 \<le> tf notebook_config"
    by (simp_all add: notebook_config_def)
  show "\<And>x. \<bar>dxW1 notebook_config x\<bar> \<le> 1" "\<And>x. \<bar>dxW2 notebook_config x\<bar> \<le> 1"
    "\<And>x. \<bar>dxK notebook_config x\<bar> \<le> 1"
    by (simp_all add: notebook_config_def sgn_real_def)
  show "\<And>x. 0 \<le> rho1_ini notebook_config x" "\<And>x. 0 \<le> rho2_ini notebook_config x"
    by (simp_all add: notebook_config_def indicator01_def)
  show "Dt notebook_discretisation / Dx notebook_discretisation * 2 \<le> 1"
    "Dt notebook_discretisation / Dx notebook_discretisation * (1 + \<bar>beta notebook_config\<bar>) \<le> 1"
    by (simp_all add: notebook_discretisation_def notebook_config_def)
qed

section \<open>Claims about the number of iterations\<close>

text \<open>
  C9. The continuum loop makes \<open>Nt\<close> iterations and ends with \<open>n = Nt - 1\<close>: 1000
  iterations and \<open>n = 999\<close> as shipped. The particle notebook, with \<open>dt = 0.005\<close> and
  \<open>T = 5\<close>, computes \<open>nT = 1000\<close>, which its comment calls the number of time steps,
  and then loops over the \<open>nT + 1\<close> points of \<open>linspace(0,T,nT+1)\<close>: it makes 1001
  Euler steps and ends with \<open>n = 1000\<close>, for any initial positions.
\<close>

theorem particle_run_steps:
  "steps_executed notebook_config = 1000
   \<and> map_sum id n (run notebook_config) = Inr (Some 999)
   \<and> nT notebook_particle_config = Inr 1000
   \<and> map_sum id cnt (run_particles notebook_particle_config px1 py1 px2 py2) = Inr 1001
   \<and> map_sum id loop_n (run_particles notebook_particle_config px1 py1 px2 py2)
       = Inr (Some 1000)"
proof -
  have continuum: "steps_executed notebook_config = 1000"
    "map_sum id n (run notebook_config) = Inr (Some 999)"
    using run_steps [OF notebook_parameters] by (simp_all add: notebook_config_def)
  obtain ts where ts: "particle_times notebook_particle_config = Inr ts" "length ts = 1001"
    using notebook_particle_times by blast
  then have "ts \<noteq> []" by auto
  then show ?thesis
    using ts continuum
    by (simp add: run_particles_def notebook_nT fold_particle_step_cnt fold_particle_step_n
          initial_particles_def)
qed

end
